theory Spec2Isabelle
  imports Main "HOL-Library.Product_Lexorder"
begin

section \<open>Data model\<close>

text \<open>
  The program is \<^verbatim>\<open>src/timetable/main.py\<close>. Its sibling modules \<^verbatim>\<open>timetable\<close>,
  \<^verbatim>\<open>config\<close> and \<^verbatim>\<open>draw\<close> are not part of the sources; what \<^verbatim>\<open>main.py\<close> reads
  from their objects is modelled here, and their functions are parameters of the model
  (record \<open>collaborators\<close> below).

  A start or end of an activity is a Python \<^verbatim>\<open>datetime.time\<close>: line 249 compares
  \<^verbatim>\<open>activity.start > now.time()\<close>, which Python allows between two \<^verbatim>\<open>time\<close> objects
  only, and lines 183-185 and 191-192 go through a \<^verbatim>\<open>datetime\<close> and back with
  \<^verbatim>\<open>.time()\<close> to add hours. Python keeps the fields of a \<^verbatim>\<open>time\<close> in range
  (\<open>valid_time\<close>).
\<close>

record time =
  hour :: nat
  minute :: nat
  second :: nat
  microsecond :: nat

definition valid_time :: "time \<Rightarrow> bool" where
  "valid_time t \<longleftrightarrow> hour t < 24 \<and> minute t < 60 \<and> second t < 60 \<and> microsecond t < 1000000"

text \<open>
  Naive \<^verbatim>\<open>time\<close> objects compare as the tuples (hour, minute, second, microsecond),
  lexicographically.
\<close>

definition time_tuple :: "time \<Rightarrow> nat \<times> nat \<times> nat \<times> nat" where
  "time_tuple t = (hour t, minute t, second t, microsecond t)"

definition time_less :: "time \<Rightarrow> time \<Rightarrow> bool" where
  "time_less a b \<longleftrightarrow> time_tuple a < time_tuple b"

text \<open>
  A \<^verbatim>\<open>datetime\<close> is a date and a time of day. The date is kept as its proleptic Gregorian
  ordinal (\<^verbatim>\<open>date.toordinal()\<close>, 1 for 0001-01-01 up to \<open>MAXORDINAL\<close> for 9999-12-31):
  \<^verbatim>\<open>main.py\<close> only shifts dates by days and hours and asks for the weekday, which Python
  computes as \<^verbatim>\<open>(toordinal() + 6) % 7\<close>.
\<close>

record datetime =
  ordinal :: nat
  tod :: time

definition MAXORDINAL :: nat where
  "MAXORDINAL = 3652059"

definition valid_datetime :: "datetime \<Rightarrow> bool" where
  "valid_datetime d \<longleftrightarrow> 1 \<le> ordinal d \<and> ordinal d \<le> MAXORDINAL \<and> valid_time (tod d)"

definition weekday :: "datetime \<Rightarrow> nat" where
  "weekday d = (ordinal d + 6) mod 7"

text \<open>
  Modelled from the spec: the classes \<^verbatim>\<open>Location\<close>, \<^verbatim>\<open>Activity\<close> and \<^verbatim>\<open>Course\<close> of
  the absent module \<^verbatim>\<open>timetable\<close> (spec section 3), with the attributes that
  \<^verbatim>\<open>main.py\<close> reads: \<^verbatim>\<open>place\<close>; \<^verbatim>\<open>name\<close>, \<^verbatim>\<open>day\<close>, \<^verbatim>\<open>start\<close>, \<^verbatim>\<open>end\<close>
  (here \<open>end_time\<close>); \<^verbatim>\<open>title\<close>, and the activities a course owns.
\<close>

record location =
  place :: string

record activity =
  name :: string
  day :: nat
  start :: time
  end_time :: time

record course =
  title :: string
  activities :: "activity list"

text \<open>The exceptions that can leave a function of \<^verbatim>\<open>main.py\<close>.\<close>

datatype error =
    TypeError
  | ValueError
  | OverflowError
  | StopIteration
  | SchemaError string
  | SystemExit string
  | FetchError

text \<open>
  What the program sends out: a printed line, a printed \<^verbatim>\<open>timedelta\<close> (in microseconds),
  a timeline or a table handed to \<^verbatim>\<open>draw\<close> on a fresh canvas whose frame is printed
  (\<^verbatim>\<open>draw.timeline(canvas, x, y, box_width, box_height, mapping)\<close>,
  \<^verbatim>\<open>draw.table(canvas, x, y, rows)\<close>), and the course list pickled to the data file.
\<close>

datatype event =
    Print string
  | PrintTimedelta int
  | Timeline nat nat nat nat "(string \<times> string list) list"
  | Table nat nat "string list list"
  | Dump "course list"

text \<open>
  The functions of the absent modules \<^verbatim>\<open>timetable\<close> and \<^verbatim>\<open>config\<close> that
  \<^verbatim>\<open>main.py\<close> calls, as parameters; \<open>RESET\<close> is \<^verbatim>\<open>config.TermColour.RESET.value\<close> and
  \<open>colour_of_course\<close> gives the \<^verbatim>\<open>.value\<close> of the colour. The two date formats
  \<^verbatim>\<open>f'{date:week %U of %Y}'\<close> and \<^verbatim>\<open>date.date().isoformat()\<close> need the calendar
  date behind the ordinal and are parameters as well.
\<close>

record ('cfg, 'sel) collaborators =
  activities_on :: "course list \<Rightarrow> datetime \<Rightarrow> 'sel \<Rightarrow> (course \<times> activity) list"
  location_valid_for :: "activity \<Rightarrow> datetime \<Rightarrow> location"
  colour_of_course :: "'cfg \<Rightarrow> course \<Rightarrow> string"
  RESET :: string
  get_courses :: "'cfg \<Rightarrow> course list"
  fetch_activities :: "course \<Rightarrow> error + course"
  get_selected_activities :: "'cfg \<Rightarrow> course list \<Rightarrow> 'sel"
  strftime_week :: "datetime \<Rightarrow> string"
  isoformat :: "datetime \<Rightarrow> string"

section \<open>Formatting\<close>

definition digit :: "nat \<Rightarrow> char" where
  "digit n = ''0123456789'' ! (n mod 10)"

fun dec :: "nat \<Rightarrow> string" where
  "dec n = (if n < 10 then [digit n] else dec (n div 10) @ [digit n])"

declare dec.simps [simp del]

text \<open>\<^verbatim>\<open>%02d\<close>: at least two digits, padded with a zero.\<close>

definition pad2 :: "nat \<Rightarrow> string" where
  "pad2 n = (if n < 10 then CHR ''0'' # dec n else dec n)"

text \<open>\<^verbatim>\<open>t.strftime('%H:%M')\<close>, also \<^verbatim>\<open>f'{t:%H:%M}'\<close>.\<close>

definition strftime_HM :: "time \<Rightarrow> string" where
  "strftime_HM t = pad2 (hour t) @ '':'' @ pad2 (minute t)"

section \<open>The next activity (\<^verbatim>\<open>show_next\<close>, lines 246-249)\<close>

text \<open>
  \<^verbatim>\<open>next(((course, activity) for course, activity in activities
          if activity.start > now.time()), None)\<close>
\<close>

fun next_activity :: "(course \<times> activity) list \<Rightarrow> datetime \<Rightarrow> (course \<times> activity) option" where
  "next_activity [] now = None"
| "next_activity ((c, a) # rest) now =
     (if time_less (tod now) (start a) then Some (c, a) else next_activity rest now)"

section \<open>The day view (\<^verbatim>\<open>print_activity\<close>, lines 90-109)\<close>

text \<open>The value is the line handed to \<^verbatim>\<open>print\<close>.\<close>

definition print_activity ::
  "('cfg, 'sel) collaborators \<Rightarrow> 'cfg \<Rightarrow> datetime \<Rightarrow> course \<Rightarrow> activity \<Rightarrow> string" where
  "print_activity ext config_dict date c a =
     (let relevant_location = location_valid_for ext a date;
          start_s = strftime_HM (start a);
          colour = colour_of_course ext config_dict c;
          title_s = colour @ title c @ RESET ext;
          end_s = strftime_HM (end_time a)
      in start_s @ '' - '' @ end_s @ '' :: '' @ title_s @ '' '' @ name a @ '' @ ''
           @ place relevant_location)"

section \<open>The timeline (\<^verbatim>\<open>print_timeline\<close>, lines 112-155)\<close>

text \<open>\<^verbatim>\<open>max\<close> of a sequence of lengths; Python raises \<^verbatim>\<open>ValueError\<close> on an empty one.\<close>

fun py_max :: "nat list \<Rightarrow> error + nat" where
  "py_max [] = Inl ValueError"
| "py_max (x # xs) = Inr (fold max xs x)"

text \<open>
  The \<^verbatim>\<open>OrderedDict\<close> is a list of (key, value) pairs in insertion order:
  \<^verbatim>\<open>mapping.get(key, default)\<close> and \<^verbatim>\<open>mapping[key] = value\<close>, which keeps the place of a
  key already present and puts a new key last.
\<close>

fun od_get :: "('k \<times> 'v) list \<Rightarrow> 'k \<Rightarrow> 'v \<Rightarrow> 'v" where
  "od_get [] k d = d"
| "od_get ((k', v) # m) k d = (if k' = k then v else od_get m k d)"

fun od_set :: "('k \<times> 'v) list \<Rightarrow> 'k \<Rightarrow> 'v \<Rightarrow> ('k \<times> 'v) list" where
  "od_set [] k v = [(k, v)]"
| "od_set ((k', v') # m) k v = (if k' = k then (k, v) # m else (k', v') # od_set m k v)"

text \<open>
  \<^verbatim>\<open>f'{course.title}\n\n{activity.name}\n{location.place}\n{activity.end:%H:%M}'\<close>
\<close>

definition activity_text :: "course \<Rightarrow> activity \<Rightarrow> location \<Rightarrow> string" where
  "activity_text c a l =
     title c @ [CHR 0x0A, CHR 0x0A] @ name a @ [CHR 0x0A] @ place l @ [CHR 0x0A]
       @ strftime_HM (end_time a)"

text \<open>The loop of lines 146-151, from the mapping built so far.\<close>

fun bin_activities ::
  "(course \<times> activity \<times> location) list \<Rightarrow> (string \<times> string list) list
     \<Rightarrow> (string \<times> string list) list" where
  "bin_activities [] mapping = mapping"
| "bin_activities ((c, a, l) # rest) mapping =
     (let key = strftime_HM (start a);
          map_bin = od_get mapping key []
      in bin_activities rest (od_set mapping key (map_bin @ [activity_text c a l])))"

text \<open>Line 126-127: every pair with its resolved location.\<close>

definition with_locations ::
  "('cfg, 'sel) collaborators \<Rightarrow> datetime \<Rightarrow> (course \<times> activity) list
     \<Rightarrow> (course \<times> activity \<times> location) list" where
  "with_locations ext date acts = map (\<lambda>(c, a). (c, a, location_valid_for ext a date)) acts"

text \<open>Lines 128-132: the lengths of all titles, then all names, then all places.\<close>

definition line_lengths :: "(course \<times> activity \<times> location) list \<Rightarrow> nat list" where
  "line_lengths acts =
     map length (map (\<lambda>(c, a, l). title c) acts @ map (\<lambda>(c, a, l). name a) acts
                  @ map (\<lambda>(c, a, l). place l) acts)"

definition print_timeline ::
  "('cfg, 'sel) collaborators \<Rightarrow> 'cfg \<Rightarrow> datetime \<Rightarrow> (course \<times> activity) list
     \<Rightarrow> error + event list" where
  "print_timeline ext config_dict date acts =
     (if length acts = 0 then Inr []
      else
        let acts3 = with_locations ext date acts in
        case py_max (line_lengths acts3) of
          Inl e \<Rightarrow> Inl e
        | Inr longest \<Rightarrow>
            let box_width = longest * 4;
                box_height = 25;
                mapping = bin_activities acts3 []
            in Inr [Timeline 0 0 box_width box_height mapping])"

section \<open>The week grid (\<^verbatim>\<open>find_day_of_week\<close>, \<^verbatim>\<open>print_week_timetable\<close>, lines 158-200)\<close>

text \<open>
  \<^verbatim>\<open>date + timedelta(days=n)\<close>: Python raises \<^verbatim>\<open>OverflowError\<close> when the date leaves
  0001-01-01 .. 9999-12-31. \<^verbatim>\<open>dt + timedelta(hours=k)\<close> carries whole days into the date.
\<close>

definition add_days :: "datetime \<Rightarrow> int \<Rightarrow> error + datetime" where
  "add_days d n =
     (let m = int (ordinal d) + n
      in if m < 1 \<or> int MAXORDINAL < m then Inl OverflowError
         else Inr (d\<lparr>ordinal := nat m\<rparr>))"

definition add_hours :: "datetime \<Rightarrow> nat \<Rightarrow> error + datetime" where
  "add_hours d k =
     (let h = hour (tod d) + k;
          m = ordinal d + h div 24
      in if MAXORDINAL < m then Inl OverflowError
         else Inr (d\<lparr>ordinal := m, tod := (tod d)\<lparr>hour := h mod 24\<rparr>\<rparr>))"

text \<open>\<^verbatim>\<open>date.replace(hour=h, minute=0, second=0)\<close>, with \<open>h\<close> the hour of a \<^verbatim>\<open>time\<close>.\<close>

definition at_hour :: "datetime \<Rightarrow> nat \<Rightarrow> datetime" where
  "at_hour d h = d\<lparr>tod := (tod d)\<lparr>hour := h, minute := 0, second := 0\<rparr>\<rparr>"

definition find_day_of_week :: "datetime \<Rightarrow> nat \<Rightarrow> error + datetime" where
  "find_day_of_week date wd = add_days date (int wd - int (weekday date))"

text \<open>
  Sequencing of steps that may raise: an exception ends the function, a value goes on to
  the rest. A list comprehension whose element may raise ends at the first exception.
\<close>

definition and_then :: "error + 'a \<Rightarrow> ('a \<Rightarrow> error + 'b) \<Rightarrow> error + 'b" where
  "and_then r f = (case r of Inl e \<Rightarrow> Inl e | Inr x \<Rightarrow> f x)"

fun sequence :: "(error + 'a) list \<Rightarrow> error + 'a list" where
  "sequence [] = Inr []"
| "sequence (r # rs) = and_then r (\<lambda>x. and_then (sequence rs) (\<lambda>xs. Inr (x # xs)))"

text \<open>
  \<^verbatim>\<open>min(xs, key=f)\<close> and \<^verbatim>\<open>max(xs, key=f)\<close> with keys of type \<^verbatim>\<open>time\<close>: the first
  element is the candidate, a later one replaces it when its key is strictly smaller
  (larger); \<^verbatim>\<open>ValueError\<close> on an empty sequence.
\<close>

fun min_from :: "('a \<Rightarrow> time) \<Rightarrow> 'a \<Rightarrow> 'a list \<Rightarrow> 'a" where
  "min_from key best [] = best"
| "min_from key best (x # xs) =
     min_from key (if time_less (key x) (key best) then x else best) xs"

fun max_from :: "('a \<Rightarrow> time) \<Rightarrow> 'a \<Rightarrow> 'a list \<Rightarrow> 'a" where
  "max_from key best [] = best"
| "max_from key best (x # xs) =
     max_from key (if time_less (key best) (key x) then x else best) xs"

fun py_min_key :: "('a \<Rightarrow> time) \<Rightarrow> 'a list \<Rightarrow> error + 'a" where
  "py_min_key key [] = Inl ValueError"
| "py_min_key key (x # xs) = Inr (min_from key x xs)"

fun py_max_key :: "('a \<Rightarrow> time) \<Rightarrow> 'a list \<Rightarrow> error + 'a" where
  "py_max_key key [] = Inl ValueError"
| "py_max_key key (x # xs) = Inr (max_from key x xs)"

text \<open>
  \<^verbatim>\<open>latest_time + timedelta(hours=1)\<close> on a \<^verbatim>\<open>datetime.time\<close>: the class defines no
  addition, Python raises \<^verbatim>\<open>TypeError\<close> (unsupported operand types).
\<close>

definition time_plus_timedelta :: "time \<Rightarrow> nat \<Rightarrow> error + time" where
  "time_plus_timedelta t hours = Inl TypeError"

text \<open>Lines 173-178: the two bounds of the displayed hours.\<close>

definition hour_range :: "(course \<times> activity) list \<Rightarrow> error + (time \<times> time)" where
  "hour_range day_activities =
     and_then (py_min_key (\<lambda>act. start (snd act)) day_activities) (\<lambda>first_act.
     and_then (py_max_key (\<lambda>act. end_time (snd act)) day_activities) (\<lambda>last_act.
       let earliest_time = start (snd first_act);
           latest_time = end_time (snd last_act);
           earliest_time = earliest_time\<lparr>minute := 0, second := 0\<rparr>
       in if minute latest_time + second latest_time > 0
          then and_then (time_plus_timedelta latest_time 1)
                 (\<lambda>t. Inr (earliest_time, t\<lparr>minute := 0, second := 0\<rparr>))
          else Inr (earliest_time, latest_time)))"

text \<open>
  \<^verbatim>\<open>rendered_activities = defaultdict(list)\<close>, keyed by (weekday, time of day): a total
  function, the empty list where nothing was appended.
\<close>

type_synonym cells = "nat \<times> time \<Rightarrow> string list"

text \<open>
  Lines 182-186, the inner loop over \<^verbatim>\<open>range(hours)\<close> for one activity, and lines 180-186,
  the loop over the activities. \<^verbatim>\<open>hours\<close> is \<^verbatim>\<open>activity.end.hour - activity.start.hour\<close>;
  \<^verbatim>\<open>range\<close> of a number that is zero or negative is empty, which the truncating
  subtraction of \<open>nat\<close> gives as well.
\<close>

fun render_hours ::
  "datetime \<Rightarrow> course \<Rightarrow> activity \<Rightarrow> nat list \<Rightarrow> cells \<Rightarrow> error + cells" where
  "render_hours date c a [] rendered = Inr rendered"
| "render_hours date c a (h # hs) rendered =
     (let dt = at_hour date (hour (start a))
      in and_then (add_hours dt h) (\<lambda>dt'.
           render_hours date c a hs
             (rendered((day a, tod dt') :=
                rendered (day a, tod dt') @ [title c @ '' '' @ name a]))))"

fun render_activities ::
  "datetime \<Rightarrow> (course \<times> activity) list \<Rightarrow> cells \<Rightarrow> error + cells" where
  "render_activities date [] rendered = Inr rendered"
| "render_activities date ((c, a) # rest) rendered =
     (let hours = hour (end_time a) - hour (start a)
      in and_then (render_hours date c a [0 ..< hours] rendered)
           (\<lambda>rendered'. render_activities date rest rendered'))"

definition day_name :: "string list" where
  "day_name =
     [''Monday'', ''Tuesday'', ''Wednesday'', ''Thursday'', ''Friday'', ''Saturday'', ''Sunday'']"

text \<open>\<^verbatim>\<open>sep.join(xs)\<close>\<close>

fun join :: "string \<Rightarrow> string list \<Rightarrow> string" where
  "join sep [] = []"
| "join sep [x] = x"
| "join sep (x # y # ys) = x @ sep @ join sep (y # ys)"

text \<open>Lines 190-196: one row for each hour of \<^verbatim>\<open>range(hours)\<close>.\<close>

fun table_rows ::
  "datetime \<Rightarrow> time \<Rightarrow> cells \<Rightarrow> nat list \<Rightarrow> error + string list list" where
  "table_rows date earliest_time rendered [] = Inr []"
| "table_rows date earliest_time rendered (h # hs) =
     (let e_dt = at_hour date (hour earliest_time)
      in and_then (add_hours e_dt h) (\<lambda>dt'.
           let dt = tod dt';
               row = [strftime_HM dt]
                 @ map (\<lambda>d. join [CHR 0x0A] (rendered (d, dt))) [0 ..< length day_name - 2]
           in and_then (table_rows date earliest_time rendered hs)
                (\<lambda>rows. Inr (row # rows))))"

text \<open>Lines 163-170: the activities of Monday to Friday of the week of \<open>date\<close>.\<close>

definition week_activities ::
  "('cfg, 'sel) collaborators \<Rightarrow> datetime \<Rightarrow> course list \<Rightarrow> 'sel
     \<Rightarrow> error + (course \<times> activity) list" where
  "week_activities ext date courses selected_activities =
     and_then (sequence (map (find_day_of_week date) [0 ..< 5]))
       (\<lambda>dates. Inr (concat (map (\<lambda>d. activities_on ext courses d selected_activities) dates)))"

definition print_week_timetable ::
  "('cfg, 'sel) collaborators \<Rightarrow> 'cfg \<Rightarrow> datetime \<Rightarrow> course list \<Rightarrow> 'sel
     \<Rightarrow> error + event list" where
  "print_week_timetable ext config_dict date courses selected_activities =
     and_then (week_activities ext date courses selected_activities) (\<lambda>day_activities.
       if length day_activities = 0 then Inr []
       else
     and_then (hour_range day_activities) (\<lambda>(earliest_time, latest_time).
     and_then (render_activities date day_activities (\<lambda>k. [])) (\<lambda>rendered_activities.
       let hours = hour latest_time - hour earliest_time
       in and_then (table_rows date earliest_time rendered_activities [0 ..< hours])
            (\<lambda>rows. Inr [Table 0 0 (([[]] @ take 5 day_name) # rows)]))))"

section \<open>The commands (\<^verbatim>\<open>show_week\<close>, \<^verbatim>\<open>show_timetable\<close>, \<^verbatim>\<open>show_next\<close>, lines 203-257)\<close>

text \<open>
  The validated arguments of docopt; \<open>on\<close> is \<^verbatim>\<open>--on\<close> (parsed, or \<^verbatim>\<open>None\<close>), \<open>time_flag\<close> is
  \<^verbatim>\<open>--time\<close>, and \<open>cmd_next\<close>, \<open>cmd_show\<close>, \<open>cmd_week\<close> say which command was given.
\<close>

record arguments =
  on :: "datetime option"
  drop_cache :: bool
  time_flag :: bool
  cmd_next :: bool
  cmd_show :: bool
  cmd_week :: bool
  verbose :: bool
  timeline :: bool

text \<open>
  A command prints, and may raise after it has printed: its value is what it sent out and
  the exception that ended it, if one did. \<open>output_then\<close> puts what was printed before a
  step that may raise in front of that step's own output.
\<close>

type_synonym run = "event list \<times> error option"

definition output_then :: "event list \<Rightarrow> error + event list \<Rightarrow> run" where
  "output_then printed r =
     (case r of Inl e \<Rightarrow> (printed, Some e) | Inr evs \<Rightarrow> (printed @ evs, None))"

text \<open>\<^verbatim>\<open>args['--on'] or datetime.now()\<close>; a \<^verbatim>\<open>datetime\<close> is never false.\<close>

definition on_or_now :: "arguments \<Rightarrow> datetime \<Rightarrow> datetime" where
  "on_or_now args now = (case on args of Some d \<Rightarrow> d | None \<Rightarrow> now)"

definition show_week ::
  "('cfg, 'sel) collaborators \<Rightarrow> datetime \<Rightarrow> 'cfg \<Rightarrow> course list \<Rightarrow> 'sel \<Rightarrow> arguments \<Rightarrow> run" where
  "show_week ext now config_dict courses selected_activities args =
     (let date = on_or_now args now
      in output_then [Print (''Showing timetable for '' @ strftime_week ext date)]
           (print_week_timetable ext config_dict date courses selected_activities))"

definition show_timetable ::
  "('cfg, 'sel) collaborators \<Rightarrow> datetime \<Rightarrow> 'cfg \<Rightarrow> course list \<Rightarrow> 'sel \<Rightarrow> arguments \<Rightarrow> run" where
  "show_timetable ext now config_dict courses selected_activities args =
     (let date = on_or_now args now;
          acts = activities_on ext courses date selected_activities;
          day_s = day_name ! weekday date;
          isodate = isoformat ext date;
          header = Print (''Showing timetable for '' @ day_s @ '', '' @ isodate)
      in if timeline args
         then output_then [header] (print_timeline ext config_dict date acts)
         else (header # map (\<lambda>(c, a). Print (print_activity ext config_dict date c a)) acts,
               None))"

text \<open>
  \<^verbatim>\<open>now.replace(hour=act.start.hour, minute=act.start.minute)\<close> keeps the date, the second
  and the microsecond of \<open>now\<close>. The difference of two \<^verbatim>\<open>datetime\<close>s is a \<^verbatim>\<open>timedelta\<close>,
  here in microseconds.
\<close>

definition replace_hour_minute :: "datetime \<Rightarrow> nat \<Rightarrow> nat \<Rightarrow> datetime" where
  "replace_hour_minute d h m = d\<lparr>tod := (tod d)\<lparr>hour := h, minute := m\<rparr>\<rparr>"

definition microseconds_of_day :: "time \<Rightarrow> nat" where
  "microseconds_of_day t = ((hour t * 60 + minute t) * 60 + second t) * 1000000 + microsecond t"

definition datetime_minus :: "datetime \<Rightarrow> datetime \<Rightarrow> int" where
  "datetime_minus a b =
     (int (ordinal a) - int (ordinal b)) * 86400000000
       + (int (microseconds_of_day (tod a)) - int (microseconds_of_day (tod b)))"

definition show_next ::
  "('cfg, 'sel) collaborators \<Rightarrow> datetime \<Rightarrow> 'cfg \<Rightarrow> course list \<Rightarrow> 'sel \<Rightarrow> arguments \<Rightarrow> run" where
  "show_next ext now config_dict courses selected_activities args =
     (let acts = activities_on ext courses now selected_activities
      in case next_activity acts now of
           None \<Rightarrow> ([], None)
         | Some (c, act) \<Rightarrow>
             if time_flag args
             then (let time_dt = replace_hour_minute now (hour (start act)) (minute (start act));
                       delta = datetime_minus time_dt now
                   in ([PrintTimedelta delta], None))
             else ([Print (print_activity ext config_dict now c act)], None))"

section \<open>The dispatcher (\<^verbatim>\<open>main\<close>, lines 260-286)\<close>

text \<open>
  \<^verbatim>\<open>COMMAND_MAP\<close> is filled by the decorators in the order of the file: week, show, next.
  Line 282-283 takes the first command whose argument is true; \<^verbatim>\<open>next\<close> without a default
  raises \<^verbatim>\<open>StopIteration\<close> when there is none.
\<close>

datatype command = Week | Show | Next

definition COMMAND_MAP :: "command list" where
  "COMMAND_MAP = [Week, Show, Next]"

fun argument_of :: "arguments \<Rightarrow> command \<Rightarrow> bool" where
  "argument_of args Week = cmd_week args"
| "argument_of args Show = cmd_show args"
| "argument_of args Next = cmd_next args"

definition find_callback :: "arguments \<Rightarrow> error + command" where
  "find_callback args =
     (case filter (argument_of args) COMMAND_MAP of
        [] \<Rightarrow> Inl StopIteration
      | cmd # rest \<Rightarrow> Inr cmd)"

fun callback ::
  "command \<Rightarrow> ('cfg, 'sel) collaborators \<Rightarrow> datetime \<Rightarrow> 'cfg \<Rightarrow> course list \<Rightarrow> 'sel
     \<Rightarrow> arguments \<Rightarrow> run" where
  "callback Week = show_week"
| "callback Show = show_timetable"
| "callback Next = show_next"

text \<open>
  Lines 274-279: the courses of the run. \<open>data\<close> is the unpickled data file, \<^verbatim>\<open>None\<close> when
  there is none; \<^verbatim>\<open>course.fetch_activities()\<close> updates a course in place and may raise.
\<close>

definition load_courses ::
  "('cfg, 'sel) collaborators \<Rightarrow> arguments \<Rightarrow> course list option \<Rightarrow> 'cfg
     \<Rightarrow> error + course list" where
  "load_courses ext args data config_dict =
     (let courses = get_courses ext config_dict
      in case data of
           None \<Rightarrow> sequence (map (fetch_activities ext) courses)
         | Some cached \<Rightarrow>
             if drop_cache args then sequence (map (fetch_activities ext) courses)
             else Inr cached)"

text \<open>The module docstring \<^verbatim>\<open>__doc__\<close>, lines 1-15, line by line.\<close>

definition doc :: string where
  "doc = concat (map (\<lambda>line. line @ [CHR 0x0A])
     ['' Print, display, and manage your UC timetable.'',
      [],
      ''Usage:'',
      ''    timetable [-v] show [--on=<date>] [--drop-cache] [--timeline]'',
      ''    timetable [-v] week [--on=<date>] [--drop-cache]'',
      ''    timetable [-v] next [--time] [--drop-cache]'',
      [],
      ''Options:'',
      ''    -h, --help         Show this screen.'',
      ''    --on=<date>        Show the timetable for this date.'',
      ''    --drop-cache       Drop the current data file.'',
      ''    --time             Show the time to the next class.'',
      ''    -t, --timeline     Show your timetable in a fancy timeline.'',
      ''    -v, --verbose      Be more verbose.''])"

text \<open>
  \<open>validated\<close> is the outcome of \<^verbatim>\<open>COMMAND_SCHEMA.validate\<close> on what docopt returned, and
  \<open>got_config\<close> the outcome of \<^verbatim>\<open>get_config()\<close>: the data and the parsed config, or the
  exception. \<^verbatim>\<open>exit(message)\<close> raises \<^verbatim>\<open>SystemExit\<close>. The last step, lines 285-286, is
  reached when the callback has returned.
\<close>

definition main ::
  "('cfg, 'sel) collaborators \<Rightarrow> datetime \<Rightarrow> error + arguments
     \<Rightarrow> error + (course list option \<times> 'cfg) \<Rightarrow> run" where
  "main ext now validated got_config =
     (case validated of
        Inl e \<Rightarrow> ([], Some (case e of SchemaError m \<Rightarrow> SystemExit doc | _ \<Rightarrow> e))
      | Inr args \<Rightarrow>
     (case got_config of
        Inl e \<Rightarrow>
          ([], Some (case e of
                       SchemaError code \<Rightarrow>
                         if verbose args then SystemExit code
                         else SystemExit ''Failed to parse config.''
                     | _ \<Rightarrow> e))
      | Inr (data, config_dict) \<Rightarrow>
     (case load_courses ext args data config_dict of
        Inl e \<Rightarrow> ([], Some e)
      | Inr courses \<Rightarrow>
          let selected_activities = get_selected_activities ext config_dict courses
          in
     (case find_callback args of
        Inl e \<Rightarrow> ([], Some e)
      | Inr cmd \<Rightarrow>
     (case callback cmd ext now config_dict courses selected_activities args of
        (printed, Some e) \<Rightarrow> (printed, Some e)
      | (printed, None) \<Rightarrow> (printed @ [Dump courses], None))))))"

section \<open>What a run has persisted\<close>

text \<open>The course lists pickled to the data file during a run, in order.\<close>

fun dumps :: "event list \<Rightarrow> course list list" where
  "dumps [] = []"
| "dumps (Dump courses # evs) = courses # dumps evs"
| "dumps (ev # evs) = dumps evs"

section \<open>The time remaining, in the words of the specification\<close>

text \<open>
  The specification of the next-activity view states the printed delta as the next
  activity's start, anchored to today's date, minus now
  (\<^verbatim>\<open>datetime.combine(now.date(), act.start) - now\<close>). \<open>spec_time_remaining\<close> follows
  these words, to be compared with what \<open>show_next\<close> prints.
\<close>

definition spec_anchored_start :: "datetime \<Rightarrow> activity \<Rightarrow> datetime" where
  "spec_anchored_start now act = \<lparr>ordinal = ordinal now, tod = start act\<rparr>"

definition spec_time_remaining :: "datetime \<Rightarrow> activity \<Rightarrow> int" where
  "spec_time_remaining now act = datetime_minus (spec_anchored_start now act) now"

section \<open>Lines of a text\<close>

text \<open>
  The lines of a text are the pieces between its newline characters
  (\<^verbatim>\<open>text.split('\n')\<close>); this is what the number of lines of a text block means below.
\<close>

fun split_lines :: "string \<Rightarrow> string list" where
  "split_lines [] = [[]]"
| "split_lines (ch # rest) =
     (if ch = CHR 0x0A then [] # split_lines rest
      else (case split_lines rest of
              [] \<Rightarrow> [[ch]]
            | l # ls \<Rightarrow> (ch # l) # ls))"

section \<open>Example data\<close>

text \<open>
  The inputs at which the properties below are evaluated. \<open>monday\<close> is 2018-01-01
  (ordinal 736695, a Monday) at 08:15:30. The example collaborators select the
  activities of the courses that fall on the weekday of the date, in the order of the
  courses, and resolve every location to room A1.
\<close>

definition hm :: "nat \<Rightarrow> nat \<Rightarrow> time" where
  "hm h m = \<lparr>hour = h, minute = m, second = 0, microsecond = 0\<rparr>"

definition monday :: datetime where
  "monday = \<lparr>ordinal = 736695, tod = \<lparr>hour = 8, minute = 15, second = 30, microsecond = 0\<rparr>\<rparr>"

definition lecture :: activity where
  "lecture = \<lparr>name = ''Lecture'', day = 0, start = hm 9 0, end_time = hm 10 0\<rparr>"

definition lab :: activity where
  "lab = \<lparr>name = ''Lab'', day = 0, start = hm 14 0, end_time = hm 16 0\<rparr>"

definition tutorial :: activity where
  "tutorial = \<lparr>name = ''Tutorial'', day = 0, start = hm 9 0, end_time = hm 11 0\<rparr>"

definition quiz :: activity where
  "quiz = \<lparr>name = ''Quiz'', day = 0, start = hm 9 0, end_time = hm 9 50\<rparr>"

definition seminar :: activity where
  "seminar = \<lparr>name = ''Seminar'', day = 0, start = hm 9 0, end_time = hm 10 30\<rparr>"

definition cs101 :: course where
  "cs101 = \<lparr>title = ''CS101'', activities = [lecture]\<rparr>"

definition cs102 :: course where
  "cs102 = \<lparr>title = ''CS102'', activities = [lab]\<rparr>"

definition cs103 :: course where
  "cs103 = \<lparr>title = ''CS103'', activities = [tutorial]\<rparr>"

definition cs104 :: course where
  "cs104 = \<lparr>title = ''CS104'', activities = [quiz]\<rparr>"

definition cs105 :: course where
  "cs105 = \<lparr>title = ''CS105'', activities = [seminar]\<rparr>"

definition workshop :: activity where
  "workshop = \<lparr>name = ''Workshop'', day = 0, start = hm 13 0, end_time = hm 14 0\<rparr>"

definition cs106 :: course where
  "cs106 = \<lparr>title = ''CS106'', activities = [workshop]\<rparr>"

definition example_ext :: "(unit, unit) collaborators" where
  "example_ext =
     \<lparr>activities_on = (\<lambda>courses d sel.
          concat (map (\<lambda>c. map (Pair c) (filter (\<lambda>a. day a = weekday d) (activities c)))
                    courses)),
      location_valid_for = (\<lambda>a d. \<lparr>place = ''A1''\<rparr>),
      colour_of_course = (\<lambda>cfg c. ''<green>''),
      RESET = ''<reset>'',
      get_courses = (\<lambda>cfg. [cs101]),
      fetch_activities = Inr,
      get_selected_activities = (\<lambda>cfg courses. ()),
      strftime_week = (\<lambda>d. ''week 00 of 2018''),
      isoformat = (\<lambda>d. ''2018-01-01'')\<rparr>"

definition no_args :: arguments where
  "no_args = \<lparr>on = None, drop_cache = False, time_flag = False, cmd_next = False,
               cmd_show = False, cmd_week = False, verbose = False, timeline = False\<rparr>"

section \<open>Properties of the next activity\<close>

lemma time_less_microseconds:
  assumes "valid_time a" and "valid_time b"
  shows "time_less a b \<longleftrightarrow> microseconds_of_day a < microseconds_of_day b"
  using assms
  unfolding time_less_def time_tuple_def microseconds_of_day_def valid_time_def
  by auto

lemma next_activity_None_iff:
  "next_activity acts now = None \<longleftrightarrow>
     (\<forall>p \<in> set acts. \<not> time_less (tod now) (start (snd p)))"
  by (induction acts now rule: next_activity.induct) auto

lemma next_activity_Some_iff:
  "next_activity acts now = Some p \<longleftrightarrow>
     (\<exists>pre post. acts = pre @ p # post \<and> time_less (tod now) (start (snd p))
        \<and> (\<forall>q \<in> set pre. \<not> time_less (tod now) (start (snd q))))"
proof (induction acts now rule: next_activity.induct)
  case (1 now)
  then show ?case by simp
next
  case (2 c a rest now)
  show ?case
  proof (cases "time_less (tod now) (start a)")
    case True
    have "(\<exists>pre post. (c, a) # rest = pre @ p # post \<and> time_less (tod now) (start (snd p))
        \<and> (\<forall>q \<in> set pre. \<not> time_less (tod now) (start (snd q)))) \<longleftrightarrow> p = (c, a)"
    proof
      assume "(\<exists>pre post. (c, a) # rest = pre @ p # post \<and> time_less (tod now) (start (snd p))
        \<and> (\<forall>q \<in> set pre. \<not> time_less (tod now) (start (snd q))))"
      then obtain pre post where h: "(c, a) # rest = pre @ p # post"
        "\<forall>q \<in> set pre. \<not> time_less (tod now) (start (snd q))" by blast
      show "p = (c, a)"
      proof (cases pre)
        case Nil
        with h show ?thesis by simp
      next
        case (Cons q qs)
        with h True show ?thesis by auto
      qed
    next
      assume "p = (c, a)"
      with True show "(\<exists>pre post. (c, a) # rest = pre @ p # post \<and> time_less (tod now) (start (snd p))
        \<and> (\<forall>q \<in> set pre. \<not> time_less (tod now) (start (snd q))))"
        by (intro exI[of _ "[]"] exI[of _ rest]) simp
    qed
    with True show ?thesis by auto
  next
    case False
    have "(\<exists>pre post. (c, a) # rest = pre @ p # post \<and> time_less (tod now) (start (snd p))
        \<and> (\<forall>q \<in> set pre. \<not> time_less (tod now) (start (snd q)))) \<longleftrightarrow> (\<exists>pre post. rest = pre @ p # post \<and> time_less (tod now) (start (snd p))
        \<and> (\<forall>q \<in> set pre. \<not> time_less (tod now) (start (snd q))))"
    proof
      assume "(\<exists>pre post. (c, a) # rest = pre @ p # post \<and> time_less (tod now) (start (snd p))
        \<and> (\<forall>q \<in> set pre. \<not> time_less (tod now) (start (snd q))))"
      then obtain pre post where h: "(c, a) # rest = pre @ p # post"
        "time_less (tod now) (start (snd p))"
        "\<forall>q \<in> set pre. \<not> time_less (tod now) (start (snd q))" by blast
      show "(\<exists>pre post. rest = pre @ p # post \<and> time_less (tod now) (start (snd p))
        \<and> (\<forall>q \<in> set pre. \<not> time_less (tod now) (start (snd q))))"
      proof (cases pre)
        case Nil
        with h False show ?thesis by auto
      next
        case (Cons q qs)
        with h have "rest = qs @ p # post"
          "\<forall>q \<in> set qs. \<not> time_less (tod now) (start (snd q))"
          by auto
        with h(2) show ?thesis by blast
      qed
    next
      assume "(\<exists>pre post. rest = pre @ p # post \<and> time_less (tod now) (start (snd p))
        \<and> (\<forall>q \<in> set pre. \<not> time_less (tod now) (start (snd q))))"
      then obtain pre post where h: "rest = pre @ p # post"
        "time_less (tod now) (start (snd p))"
        "\<forall>q \<in> set pre. \<not> time_less (tod now) (start (snd q))" by blast
      from h False have "(c, a) # rest = ((c, a) # pre) @ p # post
        \<and> time_less (tod now) (start (snd p))
        \<and> (\<forall>q \<in> set ((c, a) # pre). \<not> time_less (tod now) (start (snd q)))" by simp
      then show "(\<exists>pre post. (c, a) # rest = pre @ p # post \<and> time_less (tod now) (start (snd p))
        \<and> (\<forall>q \<in> set pre. \<not> time_less (tod now) (start (snd q))))" by blast
    qed
    with False 2 show ?thesis by simp
  qed
qed

text \<open>
  C4. For every list of today's activities and every \<open>now\<close>, the next activity is the
  first pair of the list whose start is strictly later than the time of day of \<open>now\<close>
  (every pair before it starts no later), and it is \<open>None\<close>, a value and no exception,
  exactly when no activity of the list starts strictly later.
\<close>

theorem next_activity_first_strictly_later:
  "(next_activity acts now = None \<longleftrightarrow>
      (\<forall>p \<in> set acts. \<not> time_less (tod now) (start (snd p))))
   \<and> (\<forall>p. next_activity acts now = Some p \<longleftrightarrow>
        (\<exists>pre post. acts = pre @ p # post \<and> time_less (tod now) (start (snd p))
           \<and> (\<forall>q \<in> set pre. \<not> time_less (tod now) (start (snd q)))))"
  using next_activity_None_iff next_activity_Some_iff by blast

text \<open>
  With activities at 09:00 and 14:00, the next activity at 10:00 is the one at 14:00, and
  at 15:00 there is none.
\<close>

theorem next_activity_first_strictly_later_witness:
  "next_activity
     [(\<lparr>title = ''CS101'', activities = []\<rparr>,
       \<lparr>name = ''Lecture'', day = 0,
        start = \<lparr>hour = 9, minute = 0, second = 0, microsecond = 0\<rparr>,
        end_time = \<lparr>hour = 10, minute = 0, second = 0, microsecond = 0\<rparr>\<rparr>),
      (\<lparr>title = ''CS102'', activities = []\<rparr>,
       \<lparr>name = ''Lab'', day = 0,
        start = \<lparr>hour = 14, minute = 0, second = 0, microsecond = 0\<rparr>,
        end_time = \<lparr>hour = 15, minute = 0, second = 0, microsecond = 0\<rparr>\<rparr>)]
     \<lparr>ordinal = 736695, tod = \<lparr>hour = 10, minute = 0, second = 0, microsecond = 0\<rparr>\<rparr>
   = Some (\<lparr>title = ''CS102'', activities = []\<rparr>,
       \<lparr>name = ''Lab'', day = 0,
        start = \<lparr>hour = 14, minute = 0, second = 0, microsecond = 0\<rparr>,
        end_time = \<lparr>hour = 15, minute = 0, second = 0, microsecond = 0\<rparr>\<rparr>)
   \<and> next_activity
     [(\<lparr>title = ''CS101'', activities = []\<rparr>,
       \<lparr>name = ''Lecture'', day = 0,
        start = \<lparr>hour = 9, minute = 0, second = 0, microsecond = 0\<rparr>,
        end_time = \<lparr>hour = 10, minute = 0, second = 0, microsecond = 0\<rparr>\<rparr>),
      (\<lparr>title = ''CS102'', activities = []\<rparr>,
       \<lparr>name = ''Lab'', day = 0,
        start = \<lparr>hour = 14, minute = 0, second = 0, microsecond = 0\<rparr>,
        end_time = \<lparr>hour = 15, minute = 0, second = 0, microsecond = 0\<rparr>\<rparr>)]
     \<lparr>ordinal = 736695, tod = \<lparr>hour = 15, minute = 0, second = 0, microsecond = 0\<rparr>\<rparr>
   = None"
proof -
  let ?a9 = "(\<lparr>title = ''CS101'', activities = []\<rparr>,
       \<lparr>name = ''Lecture'', day = 0,
        start = \<lparr>hour = 9, minute = 0, second = 0, microsecond = 0\<rparr>,
        end_time = \<lparr>hour = 10, minute = 0, second = 0, microsecond = 0\<rparr>\<rparr>)"
  let ?a14 = "(\<lparr>title = ''CS102'', activities = []\<rparr>,
       \<lparr>name = ''Lab'', day = 0,
        start = \<lparr>hour = 14, minute = 0, second = 0, microsecond = 0\<rparr>,
        end_time = \<lparr>hour = 15, minute = 0, second = 0, microsecond = 0\<rparr>\<rparr>)"
  let ?now10 = "\<lparr>ordinal = 736695, tod = \<lparr>hour = 10, minute = 0, second = 0, microsecond = 0\<rparr>\<rparr>"
  let ?now15 = "\<lparr>ordinal = 736695, tod = \<lparr>hour = 15, minute = 0, second = 0, microsecond = 0\<rparr>\<rparr>"
  have "[?a9, ?a14] = [?a9] @ ?a14 # [] \<and> time_less (tod ?now10) (start (snd ?a14))
          \<and> (\<forall>q \<in> set [?a9]. \<not> time_less (tod ?now10) (start (snd q)))"
    by (simp add: time_less_def time_tuple_def)
  then have first: "\<exists>pre post. [?a9, ?a14] = pre @ ?a14 # post
          \<and> time_less (tod ?now10) (start (snd ?a14))
          \<and> (\<forall>q \<in> set pre. \<not> time_less (tod ?now10) (start (snd q)))"
    by blast
  have none: "\<forall>p \<in> set [?a9, ?a14]. \<not> time_less (tod ?now15) (start (snd p))"
    by (simp add: time_less_def time_tuple_def)
  from first next_activity_first_strictly_later [of "[?a9, ?a14]" ?now10]
  have "next_activity [?a9, ?a14] ?now10 = Some ?a14" by blast
  moreover from none next_activity_first_strictly_later [of "[?a9, ?a14]" ?now15]
  have "next_activity [?a9, ?a14] ?now15 = None" by blast
  ultimately show ?thesis by blast
qed

section \<open>Properties of the timeline\<close>

lemmas ex_defs = no_args_def example_ext_def monday_def lecture_def lab_def tutorial_def quiz_def
  seminar_def workshop_def cs101_def cs102_def cs103_def cs104_def cs105_def cs106_def hm_def
lemma od_get_od_set:
  "od_get (od_set m k v) k' d = (if k' = k then v else od_get m k' d)"
  by (induction m) auto

lemma keys_od_set:
  "map fst (od_set m k v) = (if k \<in> set (map fst m) then map fst m else map fst m @ [k])"
  by (induction m) force+

lemma od_get_bin_activities:
  "od_get (bin_activities acts m) k [] =
     od_get m k [] @ map (\<lambda>(c, a, l). activity_text c a l)
                       (filter (\<lambda>(c, a, l). strftime_HM (start a) = k) acts)"
  by (induction acts m rule: bin_activities.induct) (auto simp: od_get_od_set Let_def)

lemma keys_bin_activities:
  "map fst (bin_activities acts m) =
     fold (\<lambda>k ks. if k \<in> set ks then ks else ks @ [k])
       (map (\<lambda>(c, a, l). strftime_HM (start a)) acts) (map fst m)"
  by (induction acts m rule: bin_activities.induct) (auto simp: keys_od_set Let_def)

lemma remdups_snoc: "remdups (xs @ [x]) = remdups (filter (\<lambda>y. y \<noteq> x) xs) @ [x]"
  by (induction xs) auto

lemma fold_first_seen:
  "fold (\<lambda>k ks. if k \<in> set ks then ks else ks @ [k]) xs ks =
     ks @ rev (remdups (rev (filter (\<lambda>k. k \<notin> set ks) xs)))"
proof (induction xs arbitrary: ks)
  case Nil
  then show ?case by simp
next
  case (Cons x xs)
  show ?case
  proof (cases "x \<in> set ks")
    case True
    then show ?thesis using Cons.IH [of ks] by simp
  next
    case False
    have "(\<lambda>k. k \<notin> set (ks @ [x])) = (\<lambda>k. k \<noteq> x \<and> k \<notin> set ks)" by auto
    then have "filter (\<lambda>k. k \<notin> set (ks @ [x])) xs =
      filter (\<lambda>y. y \<noteq> x) (filter (\<lambda>k. k \<notin> set ks) xs)"
      by (simp add: conj_commute)
    with False show ?thesis using Cons.IH [of "ks @ [x]"]
      by (simp add: remdups_snoc rev_filter)
  qed
qed

lemma py_max_Max: "xs \<noteq> [] \<Longrightarrow> py_max xs = Inr (Max (set xs))"
proof (cases xs)
  case Nil
  assume "xs \<noteq> []"
  with Nil show ?thesis by simp
next
  case (Cons x ys)
  have "fold max ys x = Max (set (x # ys))" by (rule Max.set_eq_fold [symmetric])
  with Cons show ?thesis by simp
qed

lemma set_line_lengths:
 "set (line_lengths (with_locations ext date acts)) =
    length ` (\<Union>(c, a) \<in> set acts. {title c, name a, place (location_valid_for ext a date)})"
  by (force simp: line_lengths_def with_locations_def image_iff)

lemma print_timeline_nonempty:
  assumes "acts \<noteq> []"
  shows "print_timeline ext config_dict date acts =
    Inr [Timeline 0 0 (Max (set (line_lengths (with_locations ext date acts))) * 4) 25
           (bin_activities (with_locations ext date acts) [])]"
proof -
  from assms have "line_lengths (with_locations ext date acts) \<noteq> []"
    by (simp add: line_lengths_def with_locations_def)
  then show ?thesis using assms
    by (simp add: print_timeline_def py_max_Max Let_def)
qed

lemma digit_in: "digit n \<in> set ''0123456789''"
  unfolding digit_def by (rule nth_mem) simp

lemma digit_not_newline: "digit n \<noteq> CHR 0x0A"
  using digit_in [of n] by auto

lemma dec_no_newline: "CHR 0x0A \<notin> set (dec n)"
proof (induction n rule: dec.induct)
  case (1 n)
  show ?case
  proof (cases "n < 10")
    case True
    then show ?thesis using digit_not_newline [of n] by (subst dec.simps) auto
  next
    case False
    then show ?thesis using 1 digit_not_newline [of n] by (subst dec.simps) auto
  qed
qed

lemma strftime_HM_no_newline: "CHR 0x0A \<notin> set (strftime_HM t)"
  by (simp add: strftime_HM_def pad2_def dec_no_newline)

lemma split_lines_nonempty: "split_lines s \<noteq> []"
  by (induction s) (auto split: list.splits)

lemma split_lines_single: "CHR 0x0A \<notin> set s \<Longrightarrow> split_lines s = [s]"
  by (induction s) auto

lemma split_lines_append:
  "CHR 0x0A \<notin> set s \<Longrightarrow> split_lines (s @ CHR 0x0A # rest) = s # split_lines rest"
  by (induction s) auto

lemma split_lines_activity_text:
  assumes "CHR 0x0A \<notin> set (title c)" "CHR 0x0A \<notin> set (name a)" "CHR 0x0A \<notin> set (place l)"
  shows "split_lines (activity_text c a l) =
           [title c, [], name a, place l, strftime_HM (end_time a)]"
proof -
  have "split_lines (activity_text c a l) =
          title c # split_lines (CHR 0x0A # name a @ CHR 0x0A # place l @ CHR 0x0A # strftime_HM (end_time a))"
    using assms(1) by (simp add: activity_text_def split_lines_append)
  also have "split_lines (CHR 0x0A # name a @ CHR 0x0A # place l @ CHR 0x0A # strftime_HM (end_time a))
     = [] # split_lines (name a @ CHR 0x0A # place l @ CHR 0x0A # strftime_HM (end_time a))"
    by simp
  also have "split_lines (name a @ CHR 0x0A # place l @ CHR 0x0A # strftime_HM (end_time a))
     = name a # split_lines (place l @ CHR 0x0A # strftime_HM (end_time a))"
    using assms(2) by (rule split_lines_append)
  also have "split_lines (place l @ CHR 0x0A # strftime_HM (end_time a))
     = place l # split_lines (strftime_HM (end_time a))"
    using assms(3) by (rule split_lines_append)
  also have "split_lines (strftime_HM (end_time a)) = [strftime_HM (end_time a)]"
    by (rule split_lines_single) (rule strftime_HM_no_newline)
  finally show ?thesis .
qed

lemma with_locations_filter:
  "map (\<lambda>(c, a, l). activity_text c a l)
     (filter (\<lambda>(c, a, l). strftime_HM (start a) = k) (with_locations ext date acts)) =
   map (\<lambda>(c, a). activity_text c a (location_valid_for ext a date))
     (filter (\<lambda>(c, a). strftime_HM (start a) = k) acts)"
  by (induction acts) (auto simp: with_locations_def)

lemma with_locations_keys:
  "map (\<lambda>(c, a, l). strftime_HM (start a)) (with_locations ext date acts) =
   map (\<lambda>(c, a). strftime_HM (start a)) acts"
  by (induction acts) (auto simp: with_locations_def)

text \<open>
  C5. For a batch that is not empty, the timeline handed to the renderer has the box width
  4 times the length of the longest string among all course titles, activity names and
  resolved places of the batch (and the box height 25); for the empty batch
  \<open>print_timeline\<close> returns with no output at all: nothing is laid out and nothing is
  rendered.
\<close>

theorem timeline_box_width:
  "(acts \<noteq> [] \<longrightarrow>
      (\<exists>mapping. print_timeline ext config_dict date acts =
         Inr [Timeline 0 0
                (4 * Max (length ` (\<Union>(c, a) \<in> set acts.
                     {title c, name a, place (location_valid_for ext a date)})))
                25 mapping]))
   \<and> print_timeline ext config_dict date [] = Inr []"
  by (simp add: print_timeline_nonempty set_line_lengths) (simp add: print_timeline_def)

text \<open>
  C9. In the mapping of the timeline the keys are the HH:MM start times in the order in
  which they are first seen in the input, and the bucket of a key holds the text blocks
  of exactly the activities with that start time, in the order of the input list.
\<close>

theorem timeline_bucket_order:
  assumes "acts \<noteq> []"
  shows "\<exists>w mapping. print_timeline ext config_dict date acts = Inr [Timeline 0 0 w 25 mapping]
     \<and> map fst mapping = rev (remdups (rev (map (\<lambda>(c, a). strftime_HM (start a)) acts)))
     \<and> (\<forall>k. od_get mapping k [] =
           map (\<lambda>(c, a). activity_text c a (location_valid_for ext a date))
             (filter (\<lambda>(c, a). strftime_HM (start a) = k) acts))"
  using assms
  by (simp add: print_timeline_nonempty od_get_bin_activities keys_bin_activities
      fold_first_seen with_locations_filter with_locations_keys)

text \<open>
  C2, as amended. For every activity of the batch the timeline builds a text block of
  five lines, the course title, an empty line, the activity name, the resolved place and
  the end time as HH:MM, and puts it into the bucket of the activity's start time. (The
  five pieces are five lines when the title, the name and the place hold no newline.)
\<close>

theorem timeline_text_block:
  assumes "(c, a) \<in> set acts"
  shows "\<exists>w mapping. print_timeline ext config_dict date acts = Inr [Timeline 0 0 w 25 mapping]
     \<and> (let l = location_valid_for ext a date;
             block = title c @ [CHR 0x0A, CHR 0x0A] @ name a @ [CHR 0x0A] @ place l @ [CHR 0x0A]
                       @ strftime_HM (end_time a)
         in block \<in> set (od_get mapping (strftime_HM (start a)) [])
            \<and> (CHR 0x0A \<notin> set (title c) \<and> CHR 0x0A \<notin> set (name a) \<and> CHR 0x0A \<notin> set (place l)
                 \<longrightarrow> split_lines block = [title c, [], name a, place l, strftime_HM (end_time a)]))"
proof -
  from assms have ne: "acts \<noteq> []" by auto
  let ?l = "location_valid_for ext a date"
  have block: "activity_text c a ?l = title c @ [CHR 0x0A, CHR 0x0A] @ name a @ [CHR 0x0A] @ place ?l @ [CHR 0x0A]
                       @ strftime_HM (end_time a)"
    by (simp add: activity_text_def)
  from assms have "activity_text c a ?l \<in> set (map (\<lambda>(c, a). activity_text c a (location_valid_for ext a date))
             (filter (\<lambda>(c, a'). strftime_HM (start a') = strftime_HM (start a)) acts))"
    by force
  then have "activity_text c a ?l \<in> set (od_get (bin_activities (with_locations ext date acts) []) (strftime_HM (start a)) [])"
    by (simp add: od_get_bin_activities with_locations_filter)
  moreover have "CHR 0x0A \<notin> set (title c) \<and> CHR 0x0A \<notin> set (name a) \<and> CHR 0x0A \<notin> set (place ?l)
                 \<longrightarrow> split_lines (activity_text c a ?l) = [title c, [], name a, place ?l, strftime_HM (end_time a)]"
    by (simp add: split_lines_activity_text)
  ultimately show ?thesis
    unfolding print_timeline_nonempty [OF ne] Let_def block by blast
qed



text \<open>
  C2 as stated speaks of a block of four lines; the block of the lecture of CS101 has
  five (lines 134-141 of the source count five as well).
\<close>

theorem timeline_four_lines_counterexample:
  "split_lines (activity_text cs101 lecture \<lparr>place = ''A1''\<rparr>) = [''CS101'', [], ''Lecture'', ''A1'', ''10:00'']
   \<and> length (split_lines (activity_text cs101 lecture \<lparr>place = ''A1''\<rparr>)) \<noteq> 4"
  by (simp add: activity_text_def strftime_HM_def pad2_def dec.simps digit_def ex_defs)


text \<open>
  Three activities whose longest label is \<open>Tutorial\<close>, 8 characters: the box width is 32.
\<close>

theorem timeline_box_width_witness:
  "\<exists>mapping. print_timeline example_ext () monday
      [(cs101, lecture), (cs102, lab), (cs103, tutorial)] = Inr [Timeline 0 0 32 25 mapping]"
proof -
  let ?acts = "[(cs101, lecture), (cs102, lab), (cs103, tutorial)]"
  have ne: "?acts \<noteq> []" by simp
  have longest: "Max (length ` (\<Union>(c, a) \<in> set ?acts.
      {title c, name a, place (location_valid_for example_ext a monday)})) = 8"
    by (simp add: ex_defs)
  from ne timeline_box_width [of ?acts example_ext "()" monday]
  have "\<exists>mapping. print_timeline example_ext () monday ?acts =
         Inr [Timeline 0 0
                (4 * Max (length ` (\<Union>(c, a) \<in> set ?acts.
                     {title c, name a, place (location_valid_for example_ext a monday)})))
                25 mapping]" by blast
  then show ?thesis unfolding longest by simp
qed

text \<open>
  The lecture and the tutorial both start at 09:00, with the lab at 14:00 between them in
  the input: the keys are 09:00, 14:00 and the bucket of 09:00 is lecture, tutorial.
\<close>

theorem timeline_bucket_order_witness:
  "\<exists>w mapping. print_timeline example_ext () monday
      [(cs101, lecture), (cs102, lab), (cs103, tutorial)] = Inr [Timeline 0 0 w 25 mapping]
     \<and> map fst mapping = [''09:00'', ''14:00'']
     \<and> od_get mapping ''09:00'' [] =
         [activity_text cs101 lecture \<lparr>place = ''A1''\<rparr>,
          activity_text cs103 tutorial \<lparr>place = ''A1''\<rparr>]"
proof -
  let ?acts = "[(cs101, lecture), (cs102, lab), (cs103, tutorial)]"
  have ne: "?acts \<noteq> []" by simp
  have keys: "map (\<lambda>(c, a). strftime_HM (start a)) ?acts = [''09:00'', ''14:00'', ''09:00'']"
    by (simp add: strftime_HM_def pad2_def dec.simps digit_def ex_defs)
  from timeline_bucket_order [OF ne, of example_ext "()" monday]
  obtain w mapping where
    "print_timeline example_ext () monday ?acts = Inr [Timeline 0 0 w 25 mapping]"
    "map fst mapping = rev (remdups (rev (map (\<lambda>(c, a). strftime_HM (start a)) ?acts)))"
    "od_get mapping ''09:00'' [] =
           map (\<lambda>(c, a). activity_text c a (location_valid_for example_ext a monday))
             (filter (\<lambda>(c, a). strftime_HM (start a) = ''09:00'') ?acts)"
    by blast
  moreover have "rev (remdups (rev (map (\<lambda>(c, a). strftime_HM (start a)) ?acts)))
     = [''09:00'', ''14:00'']" unfolding keys by simp
  moreover have "map (\<lambda>(c, a). activity_text c a (location_valid_for example_ext a monday))
             (filter (\<lambda>(c, a). strftime_HM (start a) = ''09:00'') ?acts)
     = [activity_text cs101 lecture \<lparr>place = ''A1''\<rparr>,
          activity_text cs103 tutorial \<lparr>place = ''A1''\<rparr>]"
    by (simp add: strftime_HM_def pad2_def dec.simps digit_def ex_defs)
  ultimately show ?thesis by metis
qed

text \<open>The block of the lab of CS102, 14:00 to 16:00 in room A1.\<close>

theorem timeline_text_block_witness:
  "\<exists>w mapping. print_timeline example_ext () monday [(cs101, lecture), (cs102, lab)]
        = Inr [Timeline 0 0 w 25 mapping]
     \<and> ''CS102'' @ [CHR 0x0A, CHR 0x0A] @ ''Lab'' @ [CHR 0x0A] @ ''A1'' @ [CHR 0x0A] @ ''16:00''
          \<in> set (od_get mapping ''14:00'' [])
     \<and> split_lines (''CS102'' @ [CHR 0x0A, CHR 0x0A] @ ''Lab'' @ [CHR 0x0A] @ ''A1'' @ [CHR 0x0A] @ ''16:00'')
         = [''CS102'', [], ''Lab'', ''A1'', ''16:00'']"
proof -
  have mem: "(cs102, lab) \<in> set [(cs101, lecture), (cs102, lab)]" by simp
  have t: "strftime_HM (start lab) = ''14:00''" "strftime_HM (end_time lab) = ''16:00''"
    by (simp_all add: strftime_HM_def pad2_def dec.simps digit_def ex_defs)
  have f: "title cs102 = ''CS102''" "name lab = ''Lab''"
    "place (location_valid_for example_ext lab monday) = ''A1''"
    by (simp_all add: ex_defs)
  from timeline_text_block [OF mem, of example_ext "()" monday]
  show ?thesis unfolding Let_def t f by simp
qed

section \<open>Properties of the day view\<close>

lemma dec_one_digit: "n < 10 \<Longrightarrow> dec n = [digit n]"
  by (subst dec.simps) simp

lemma dec_two_digits: "10 \<le> n \<Longrightarrow> n < 100 \<Longrightarrow> dec n = [digit (n div 10), digit n]"
  by (subst dec.simps) (simp add: dec_one_digit)

lemma digit_zero: "digit 0 = CHR ''0''"
  by (simp add: digit_def)

lemma pad2_two_digits: "n < 100 \<Longrightarrow> pad2 n = [digit (n div 10), digit n]"
  by (cases "n < 10") (simp_all add: pad2_def dec_one_digit dec_two_digits digit_zero)

lemma strftime_HM_padded:
  "valid_time t \<Longrightarrow>
     strftime_HM t = [digit (hour t div 10), digit (hour t), CHR '':'',
                      digit (minute t div 10), digit (minute t)]"
  by (simp add: strftime_HM_def valid_time_def pad2_two_digits)

text \<open>
  C6. Without \<^verbatim>\<open>--timeline\<close> the day view prints its header and then, for every (course,
  activity) pair in the order in which the activity selector returns them, exactly one
  line: start and end as HH:MM, the course title between its colour and the reset code,
  the activity name and the resolved place. HH:MM is zero-padded: two digits, a colon,
  two digits.
\<close>

theorem day_view_one_line_each:
  "(\<not> timeline args \<longrightarrow>
      show_timetable ext now config_dict courses selected_activities args =
        (Print (''Showing timetable for '' @ day_name ! weekday (on_or_now args now) @ '', ''
                  @ isoformat ext (on_or_now args now))
         # map (\<lambda>(c, a).
                  Print (strftime_HM (start a) @ '' - '' @ strftime_HM (end_time a) @ '' :: ''
                         @ colour_of_course ext config_dict c @ title c @ RESET ext
                         @ '' '' @ name a @ '' @ ''
                         @ place (location_valid_for ext a (on_or_now args now))))
             (activities_on ext courses (on_or_now args now) selected_activities),
         None))
   \<and> (\<forall>t. valid_time t \<longrightarrow>
          strftime_HM t = [digit (hour t div 10), digit (hour t), CHR '':'',
                           digit (minute t div 10), digit (minute t)])"
  by (simp add: show_timetable_def print_activity_def Let_def strftime_HM_padded)



text \<open>
  One course CS101 with one Monday activity from 09:00 to 10:00 in room A1: the header
  and exactly one line, with \<open>09:00 - 10:00\<close>, \<open>CS101\<close> and \<open>A1\<close> in it.
\<close>

theorem day_view_one_line_each_witness:
  "show_timetable example_ext monday () [cs101] () (no_args\<lparr>cmd_show := True\<rparr>) =
     ([Print ''Showing timetable for Monday, 2018-01-01'',
       Print ''09:00 - 10:00 :: <green>CS101<reset> Lecture @ A1''], None)
   \<and> strftime_HM (hm 9 0) = ''09:00''"
proof -
  have nt: "\<not> timeline (no_args\<lparr>cmd_show := True\<rparr>)" by (simp add: no_args_def)
  have vt: "valid_time (hm 9 0)" by (simp add: valid_time_def hm_def)
  note inst = day_view_one_line_each [of "no_args\<lparr>cmd_show := True\<rparr>" example_ext monday "()" "[cs101]" "()"]
  from inst nt have "show_timetable example_ext monday () [cs101] () (no_args\<lparr>cmd_show := True\<rparr>) =
        (Print (''Showing timetable for '' @ day_name ! weekday (on_or_now (no_args\<lparr>cmd_show := True\<rparr>) monday) @ '', ''
                  @ isoformat example_ext (on_or_now (no_args\<lparr>cmd_show := True\<rparr>) monday))
         # map (\<lambda>(c, a).
                  Print (strftime_HM (start a) @ '' - '' @ strftime_HM (end_time a) @ '' :: ''
                         @ colour_of_course example_ext () c @ title c @ RESET example_ext
                         @ '' '' @ name a @ '' @ ''
                         @ place (location_valid_for example_ext a (on_or_now  (no_args\<lparr>cmd_show := True\<rparr>) monday))))
             (activities_on example_ext [cs101] (on_or_now  (no_args\<lparr>cmd_show := True\<rparr>) monday) ()),
         None)" by blast
  also have "\<dots> = ([Print ''Showing timetable for Monday, 2018-01-01'',
       Print ''09:00 - 10:00 :: <green>CS101<reset> Lecture @ A1''], None)"
    by (simp add: ex_defs on_or_now_def weekday_def day_name_def strftime_HM_def pad2_def dec.simps digit_def)
  finally have a: "show_timetable example_ext monday () [cs101] () (no_args\<lparr>cmd_show := True\<rparr>) =
     ([Print ''Showing timetable for Monday, 2018-01-01'',
       Print ''09:00 - 10:00 :: <green>CS101<reset> Lecture @ A1''], None)" .
  from inst vt have "strftime_HM (hm 9 0) = [digit (hour (hm 9 0) div 10), digit (hour (hm 9 0)), CHR '':'',
                           digit (minute (hm 9 0) div 10), digit (minute (hm 9 0))]" by blast
  then have "strftime_HM (hm 9 0) = ''09:00''" by (simp add: hm_def digit_def)
  with a show ?thesis by blast
qed

section \<open>Properties of the week view's header\<close>

lemma and_then_simps [simp]:
  "and_then (Inl e) f = Inl e"
  "and_then (Inr x) f = f x"
  by (simp_all add: and_then_def)

lemma and_then_Inr_iff:
  "and_then r f = Inr y \<longleftrightarrow> (\<exists>x. r = Inr x \<and> f x = Inr y)"
  by (cases r) simp_all

lemma weekday_less: "weekday d < 7"
  by (simp add: weekday_def)



lemma weekday_pred: "1 \<le> ordinal d \<Longrightarrow> weekday d = (ordinal d - 1) mod 7"
proof -
  assume "1 \<le> ordinal d"
  then obtain m where m: "ordinal d = m + 1"
    by (metis add.commute le_Suc_ex)
  have "m + 1 + 6 = m + 7" by simp
  then have "(m + 1 + 6) mod 7 = (m + 7) mod 7" by (rule arg_cong)
  also have "\<dots> = m mod 7" by simp
  finally show ?thesis by (simp add: weekday_def m)
qed

lemma week_start_bounds:
  assumes "1 \<le> ordinal d" and "ordinal d \<le> MAXORDINAL"
  shows "weekday d \<le> ordinal d - 1" and "ordinal d - weekday d + 4 \<le> MAXORDINAL"
proof -
  define m where "m = ordinal d - 1"
  have od: "ordinal d = m + 1" using assms(1) by (simp add: m_def)
  have w: "weekday d = m mod 7" using weekday_pred [OF assms(1)] by (simp add: m_def)
  show "weekday d \<le> ordinal d - 1" unfolding w od by simp
  have "m \<le> 3652058" using assms(2) od by (simp add: MAXORDINAL_def)
  then have "m div 7 \<le> 521722" by simp
  moreover have "m - m mod 7 = 7 * (m div 7)" by (simp add: minus_mod_eq_mult_div)
  ultimately have "m - m mod 7 \<le> 3652054" by simp
  moreover have "m mod 7 \<le> m" by simp
  ultimately have "m + 1 - m mod 7 + 4 \<le> 3652059" by linarith
  then show "ordinal d - weekday d + 4 \<le> MAXORDINAL" unfolding w od MAXORDINAL_def .
qed


lemma find_day_of_week_valid:
  assumes "valid_datetime d" and "wd < 5"
  shows "find_day_of_week d wd = Inr (d\<lparr>ordinal := ordinal d - weekday d + wd\<rparr>)"
proof -
  from assms(1) have r: "1 \<le> ordinal d" "ordinal d \<le> MAXORDINAL"
    by (simp_all add: valid_datetime_def)
  note b = week_start_bounds [OF r]
  from b(1) r(1) have le: "weekday d \<le> ordinal d" by linarith
  have c: "int (ordinal d) + (int wd - int (weekday d)) = int (ordinal d - weekday d + wd)"
    using le by linarith
  have lo: "1 \<le> ordinal d - weekday d + wd" using b(1) r(1) by linarith
  have hi: "ordinal d - weekday d + wd \<le> MAXORDINAL" using b(2) assms(2) by linarith
  show ?thesis
    unfolding find_day_of_week_def add_days_def Let_def c
    using lo hi by simp
qed

lemma week_dates_valid:
  assumes "valid_datetime d"
  shows "sequence (map (find_day_of_week d) [0 ..< 5]) =
           Inr (map (\<lambda>wd. d\<lparr>ordinal := ordinal d - weekday d + wd\<rparr>) [0 ..< 5])"
proof -
  have five: "[0 ..< 5] = [0, 1, 2, 3, 4::nat]" by (simp add: upt_rec)
  show ?thesis unfolding five
    using find_day_of_week_valid [OF assms, of 0] find_day_of_week_valid [OF assms, of 1]
      find_day_of_week_valid [OF assms, of 2] find_day_of_week_valid [OF assms, of 3]
      find_day_of_week_valid [OF assms, of 4]
    by simp
qed

lemma week_activities_valid:
  assumes "valid_datetime d"
  shows "week_activities ext d courses sel =
     Inr (concat (map (\<lambda>wd. activities_on ext courses (d\<lparr>ordinal := ordinal d - weekday d + wd\<rparr>) sel)
             [0 ..< 5]))"
  by (simp add: week_activities_def week_dates_valid [OF assms] comp_def del: upt_Suc)

text \<open>
  C10. The week view always prints its header first, whatever follows. When the
  activities of the week are empty the header is all it prints and it returns without an
  exception: the check for the empty week holds back the grid only. (A week is empty for
  a date in range as soon as the selector finds nothing on any day.)
\<close>

theorem week_header_always:
  "(\<exists>rest err. show_week ext now config_dict courses selected_activities args =
       (Print (''Showing timetable for '' @ strftime_week ext (on_or_now args now)) # rest, err))
   \<and> (week_activities ext (on_or_now args now) courses selected_activities = Inr [] \<longrightarrow>
        show_week ext now config_dict courses selected_activities args =
          ([Print (''Showing timetable for '' @ strftime_week ext (on_or_now args now))], None))
   \<and> (valid_datetime (on_or_now args now) \<and> (\<forall>d. activities_on ext courses d selected_activities = []) \<longrightarrow>
        week_activities ext (on_or_now args now) courses selected_activities = Inr [])"
proof (intro conjI impI)
  show "\<exists>rest err. show_week ext now config_dict courses selected_activities args =
       (Print (''Showing timetable for '' @ strftime_week ext (on_or_now args now)) # rest, err)"
    by (cases "print_week_timetable ext config_dict (on_or_now args now) courses selected_activities")
       (simp_all add: show_week_def output_then_def)
next
  assume "week_activities ext (on_or_now args now) courses selected_activities = Inr []"
  then show "show_week ext now config_dict courses selected_activities args =
          ([Print (''Showing timetable for '' @ strftime_week ext (on_or_now args now))], None)"
    by (simp add: show_week_def output_then_def print_week_timetable_def)
next
  assume "valid_datetime (on_or_now args now) \<and> (\<forall>d. activities_on ext courses d selected_activities = [])"
  then show "week_activities ext (on_or_now args now) courses selected_activities = Inr []"
    by (simp add: week_activities_valid del: upt_Suc)
qed

text \<open>A week with no course: one line, the header, and no exception.\<close>

theorem week_header_always_witness:
  "show_week example_ext monday () [] () (no_args\<lparr>cmd_week := True\<rparr>) =
     ([Print ''Showing timetable for week 00 of 2018''], None)"
proof -
  let ?args = "no_args\<lparr>cmd_week := True\<rparr>"
  have d: "on_or_now ?args monday = monday" by (simp add: on_or_now_def no_args_def)
  have v: "valid_datetime monday"
    by (simp add: valid_datetime_def valid_time_def MAXORDINAL_def monday_def)
  have e: "\<forall>d. activities_on example_ext [] d () = []" by (simp add: example_ext_def)
  from week_header_always [of example_ext monday "()" "[]" "()" ?args] d v e
  have "show_week example_ext monday () [] () ?args =
          ([Print (''Showing timetable for '' @ strftime_week example_ext monday)], None)"
    by simp
  then show ?thesis by (simp add: example_ext_def)
qed

section \<open>Properties of the dispatcher\<close>

lemma dumps_append: "dumps (xs @ ys) = dumps xs @ dumps ys"
  by (induction xs rule: dumps.induct) simp_all

lemma dumps_map_Print: "dumps (map (\<lambda>x. Print (f x)) xs) = []"
  by (induction xs) simp_all

lemma print_week_timetable_no_dump:
  "print_week_timetable ext config_dict date courses sel = Inr evs \<Longrightarrow> dumps evs = []"
  unfolding print_week_timetable_def
  by (auto simp: and_then_Inr_iff Let_def split: if_splits)

lemma print_timeline_no_dump:
  "print_timeline ext config_dict date acts = Inr evs \<Longrightarrow> dumps evs = []"
  unfolding print_timeline_def
  by (auto simp: Let_def split: if_splits sum.splits)

lemma output_then_no_dump:
  assumes "dumps printed = []" and "\<And>evs. r = Inr evs \<Longrightarrow> dumps evs = []"
  shows "dumps (fst (output_then printed r)) = []"
  using assms by (cases r) (simp_all add: output_then_def dumps_append)

lemma show_week_no_dump:
  "dumps (fst (show_week ext now config_dict courses sel args)) = []"
  unfolding show_week_def Let_def
  by (rule output_then_no_dump) (simp_all add: print_week_timetable_no_dump)

lemma show_timetable_no_dump:
  "dumps (fst (show_timetable ext now config_dict courses sel args)) = []"
proof (cases "timeline args")
  case True
  have "dumps (fst (output_then [Print h] (print_timeline ext config_dict d acts))) = []" for h d acts
    by (rule output_then_no_dump) (simp_all add: print_timeline_no_dump)
  with True show ?thesis by (simp add: show_timetable_def Let_def)
next
  case False
  then show ?thesis
    by (simp add: show_timetable_def Let_def dumps_map_Print case_prod_unfold)
qed

lemma show_next_no_dump:
  "dumps (fst (show_next ext now config_dict courses sel args)) = []"
  by (simp add: show_next_def Let_def split: option.splits prod.splits)

lemma callback_no_dump:
  "dumps (fst (callback cmd ext now config_dict courses sel args)) = []"
  by (cases cmd) (simp_all add: show_week_no_dump show_timetable_no_dump show_next_no_dump)

text \<open>
  C7. In every run whose command returns (day, week or next view, whatever it printed),
  the course list is pickled to the data file once, after the view's output, and not
  before: the run's output is the view's output followed by the one dump. No condition
  on the list is involved; a list taken unchanged from the data file is written back
  all the same.
\<close>

theorem main_persists_once:
  assumes "validated = Inr args"
    and "got_config = Inr (data, config_dict)"
    and "load_courses ext args data config_dict = Inr courses"
    and "find_callback args = Inr cmd"
    and "callback cmd ext now config_dict courses
           (get_selected_activities ext config_dict courses) args = (printed, None)"
  shows "main ext now validated got_config = (printed @ [Dump courses], None)
         \<and> dumps (fst (main ext now validated got_config)) = [courses]"
proof -
  have m: "main ext now validated got_config = (printed @ [Dump courses], None)"
    using assms by (simp add: main_def Let_def)
  from callback_no_dump [of cmd ext now config_dict courses
      "get_selected_activities ext config_dict courses" args] assms(5)
  have "dumps printed = []" by simp
  then have "dumps (printed @ [Dump courses]) = [courses]" by (simp add: dumps_append)
  with m show ?thesis by simp
qed

lemma callback_raises_no_dump:
  "callback cmd ext now config_dict courses sel args = (evs, err) \<Longrightarrow> dumps evs = []"
  using callback_no_dump [of cmd ext now config_dict courses sel args] by simp

lemma main_raises_no_dump:
  "main ext now validated got_config = (evs, Some e) \<Longrightarrow> dumps evs = []"
  unfolding main_def
  by (auto simp: Let_def split: sum.splits prod.splits option.splits
           dest: callback_raises_no_dump)

lemma load_courses_cached:
  "\<not> drop_cache args \<Longrightarrow> load_courses ext args (Some cached) config_dict = Inr cached"
  by (simp add: load_courses_def)


text \<open>
  A run of \<^verbatim>\<open>next\<close> at 17:00 with a cached course list: nothing is upcoming, nothing is
  printed, and the cached list is written back once.
\<close>

theorem main_persists_once_witness:
  "main example_ext (monday\<lparr>tod := hm 17 0\<rparr>) (Inr (no_args\<lparr>cmd_next := True\<rparr>))
        (Inr (Some [cs101, cs102], ()))
     = ([Dump [cs101, cs102]], None)"
proof -
  let ?args = "no_args\<lparr>cmd_next := True\<rparr>"
  let ?now = "monday\<lparr>tod := hm 17 0\<rparr>"
  have l: "load_courses example_ext ?args (Some [cs101, cs102]) () = Inr [cs101, cs102]"
    by (simp add: load_courses_def no_args_def)
  have f: "find_callback ?args = Inr Next"
    by (simp add: find_callback_def COMMAND_MAP_def no_args_def)
  have c: "callback Next example_ext ?now () [cs101, cs102]
             (get_selected_activities example_ext () [cs101, cs102]) ?args = ([], None)"
    by (simp add: show_next_def ex_defs weekday_def time_less_def time_tuple_def)
  from main_persists_once [OF refl refl l f c]
  show ?thesis by simp
qed

section \<open>Properties of the time to the next activity\<close>

lemma microseconds_of_day_replace:
  "int (microseconds_of_day (t\<lparr>hour := h, minute := m\<rparr>)) - int (microseconds_of_day t) =
     60000000 * (int (h * 60 + m) - int (hour t * 60 + minute t))"
proof -
  have a: "int (microseconds_of_day (t\<lparr>hour := h, minute := m\<rparr>)) =
      60000000 * int (h * 60 + m) + int (second t * 1000000 + microsecond t)"
    unfolding microseconds_of_day_def by simp
  have b: "int (microseconds_of_day t) =
      60000000 * int (hour t * 60 + minute t) + int (second t * 1000000 + microsecond t)"
    unfolding microseconds_of_day_def by simp
  show ?thesis unfolding a b by (simp only: right_diff_distrib)
qed

lemma replaced_minus_now:
  "datetime_minus (replace_hour_minute now h m) now =
     60000000 * (int (h * 60 + m) - int (hour (tod now) * 60 + minute (tod now)))"
  unfolding datetime_minus_def replace_hour_minute_def
  by (simp add: microseconds_of_day_replace)


lemma spec_time_remaining_eq:
  "spec_time_remaining now act =
     60000000 * (int (hour (start act) * 60 + minute (start act))
                  - int (hour (tod now) * 60 + minute (tod now)))
     + (int (second (start act) * 1000000 + microsecond (start act))
         - int (second (tod now) * 1000000 + microsecond (tod now)))"
proof -
  have a: "int (microseconds_of_day t) =
      60000000 * int (hour t * 60 + minute t) + int (second t * 1000000 + microsecond t)" for t
    unfolding microseconds_of_day_def by simp
  show ?thesis
    unfolding spec_time_remaining_def spec_anchored_start_def datetime_minus_def a
    by (simp only: right_diff_distrib) simp
qed

lemma show_next_time_mode:
  assumes "time_flag args"
    and "next_activity (activities_on ext courses now sel) now = Some (c, act)"
  shows "show_next ext now config_dict courses sel args =
     ([PrintTimedelta (datetime_minus
          (replace_hour_minute now (hour (start act)) (minute (start act))) now)], None)"
  using assms by (simp add: show_next_def Let_def)

text \<open>
  C3 as stated: the printed delta is the next activity's start, anchored to today's date,
  minus now. At 08:15:30 with the lecture at 09:00 next, that is 44 minutes 30 seconds
  (2670000000 microseconds); \<open>show_next\<close> prints 45 minutes (2700000000 microseconds).
\<close>

theorem next_time_delta_counterexample:
  "show_next example_ext monday () [cs101] () (no_args\<lparr>cmd_next := True, time_flag := True\<rparr>)
     = ([PrintTimedelta 2700000000], None)
   \<and> next_activity (activities_on example_ext [cs101] monday ()) monday = Some (cs101, lecture)
   \<and> spec_time_remaining monday lecture = 2670000000"
proof -
  let ?args = "no_args\<lparr>cmd_next := True, time_flag := True\<rparr>"
  have t: "time_flag ?args" by (simp add: no_args_def)
  have n: "next_activity (activities_on example_ext [cs101] monday ()) monday = Some (cs101, lecture)"
    by (simp add: ex_defs weekday_def time_less_def time_tuple_def)
  have d: "datetime_minus (replace_hour_minute monday (hour (start lecture)) (minute (start lecture)))
             monday = 2700000000"
    unfolding replaced_minus_now by (simp add: ex_defs)
  have s: "spec_time_remaining monday lecture = 2670000000"
    unfolding spec_time_remaining_eq by (simp add: ex_defs)
  from show_next_time_mode [OF t n, of "()"] d n s show ?thesis by simp
qed

text \<open>
  C3, as amended. In the time mode, for every \<open>now\<close> and every upcoming activity found,
  the printed delta is \<open>now\<close> with its hour and minute replaced by those of the
  activity's start (\<^verbatim>\<open>now.replace(hour=..., minute=...)\<close>, which keeps the second and the
  microsecond of \<open>now\<close>), minus \<open>now\<close>: the whole minutes between the two HH:MM readings.
  It exceeds the start anchored to today's date minus now by the second and microsecond
  of \<open>now\<close> less those of the start.
\<close>

theorem next_time_delta:
  assumes "time_flag args"
    and "next_activity (activities_on ext courses now sel) now = Some (c, act)"
  shows "\<exists>delta. show_next ext now config_dict courses sel args = ([PrintTimedelta delta], None)
     \<and> delta = datetime_minus (replace_hour_minute now (hour (start act)) (minute (start act))) now
     \<and> delta = 60000000 * (int (hour (start act) * 60 + minute (start act))
                             - int (hour (tod now) * 60 + minute (tod now)))
     \<and> delta = spec_time_remaining now act
                 + (int (second (tod now) * 1000000 + microsecond (tod now))
                     - int (second (start act) * 1000000 + microsecond (start act)))"
proof -
  let ?delta = "datetime_minus (replace_hour_minute now (hour (start act)) (minute (start act))) now"
  have "show_next ext now config_dict courses sel args = ([PrintTimedelta ?delta], None)"
    by (rule show_next_time_mode [OF assms])
  moreover have "?delta = 60000000 * (int (hour (start act) * 60 + minute (start act))
                             - int (hour (tod now) * 60 + minute (tod now)))"
    by (rule replaced_minus_now)
  moreover have "?delta = spec_time_remaining now act
                 + (int (second (tod now) * 1000000 + microsecond (tod now))
                     - int (second (start act) * 1000000 + microsecond (start act)))"
    unfolding replaced_minus_now spec_time_remaining_eq by linarith
  ultimately show ?thesis by blast
qed

text \<open>At 08:15:30 with the lecture at 09:00 next: 45 minutes.\<close>

theorem next_time_delta_witness:
  "show_next example_ext monday () [cs101] () (no_args\<lparr>cmd_next := True, time_flag := True\<rparr>)
     = ([PrintTimedelta 2700000000], None)"
proof -
  let ?args = "no_args\<lparr>cmd_next := True, time_flag := True\<rparr>"
  have t: "time_flag ?args" by (simp add: no_args_def)
  have n: "next_activity (activities_on example_ext [cs101] monday ()) monday = Some (cs101, lecture)"
    by (simp add: ex_defs weekday_def time_less_def time_tuple_def)
  have v: "60000000 * (int (hour (start lecture) * 60 + minute (start lecture))
                             - int (hour (tod monday) * 60 + minute (tod monday))) = 2700000000"
    by (simp add: ex_defs)
  from next_time_delta [OF t n, of "()"] show ?thesis
    unfolding v by (elim exE conjE) simp
qed

section \<open>Properties of the week grid\<close>

lemma render_activities_append:
  "render_activities date (xs @ ys) rendered =
     and_then (render_activities date xs rendered) (\<lambda>r. render_activities date ys r)"
proof (induction xs arbitrary: rendered)
  case Nil
  then show ?case by simp
next
  case (Cons p xs)
  obtain c a where p: "p = (c, a)" by (cases p)
  show ?case
  proof (cases "render_hours date c a [0 ..< hour (end_time a) - hour (start a)] rendered")
    case (Inl e)
    then show ?thesis by (simp add: p)
  next
    case (Inr r)
    then show ?thesis using Cons.IH [of r] by (simp add: p)
  qed
qed

lemma render_same_hour:
  "hour (end_time a) \<le> hour (start a) \<Longrightarrow>
     render_activities date ((c, a) # rest) rendered = render_activities date rest rendered"
  by simp

lemma render_activities_skip:
  assumes "hour (end_time a) \<le> hour (start a)"
  shows "render_activities date (pre @ (c, a) # post) rendered =
         render_activities date (pre @ post) rendered"
proof -
  have "render_activities date ((c, a) # post) = render_activities date post"
    using assms by (intro ext) simp
  then show ?thesis by (simp add: render_activities_append)
qed

lemma time_less_trans: "time_less a b \<Longrightarrow> time_less b c \<Longrightarrow> time_less a c"
  unfolding time_less_def by (rule less_trans)

lemma not_time_less_trans:
  "\<not> time_less b a \<Longrightarrow> \<not> time_less c b \<Longrightarrow> \<not> time_less c a"
  unfolding time_less_def by (simp add: not_less)

lemma min_from_lower:
  "\<not> time_less (key best) (key (min_from key best xs))
   \<and> (\<forall>x \<in> set xs. \<not> time_less (key x) (key (min_from key best xs)))"
proof (induction xs arbitrary: best)
  case Nil
  then show ?case by (simp add: time_less_def)
next
  case (Cons x xs)
  let ?b = "if time_less (key x) (key best) then x else best"
  from Cons.IH [of ?b] have ih: "\<not> time_less (key ?b) (key (min_from key ?b xs))"
    "\<forall>y \<in> set xs. \<not> time_less (key y) (key (min_from key ?b xs))" by blast+
  have bx: "\<not> time_less (key x) (key ?b)" and bb: "\<not> time_less (key best) (key ?b)"
    by (auto simp: time_less_def)
  from not_time_less_trans [OF ih(1) bx] not_time_less_trans [OF ih(1) bb] ih(2)
  show ?case by simp
qed

lemma max_from_upper:
  "\<not> time_less (key (max_from key best xs)) (key best)
   \<and> (\<forall>x \<in> set xs. \<not> time_less (key (max_from key best xs)) (key x))"
proof (induction xs arbitrary: best)
  case Nil
  then show ?case by (simp add: time_less_def)
next
  case (Cons x xs)
  let ?b = "if time_less (key best) (key x) then x else best"
  from Cons.IH [of ?b] have ih: "\<not> time_less (key (max_from key ?b xs)) (key ?b)"
    "\<forall>y \<in> set xs. \<not> time_less (key (max_from key ?b xs)) (key y)" by blast+
  have bx: "\<not> time_less (key ?b) (key x)" and bb: "\<not> time_less (key ?b) (key best)"
    by (auto simp: time_less_def)
  from not_time_less_trans [OF bx ih(1)] not_time_less_trans [OF bb ih(1)] ih(2)
  show ?case by simp
qed

lemma min_from_mem: "min_from key best xs \<in> set (best # xs)"
  by (induction xs arbitrary: best) (simp, force)

lemma max_from_mem: "max_from key best xs \<in> set (best # xs)"
  by (induction xs arbitrary: best) (simp, force)


lemma hour_mono: "\<not> time_less b a \<Longrightarrow> hour a \<le> hour b"
  unfolding time_less_def time_tuple_def by (auto simp: not_less)

lemma hour_range_bounds:
  assumes "hour_range acts = Inr (earliest, latest)" and "(c, a) \<in> set acts"
  shows "hour earliest \<le> hour (start a) \<and> \<not> time_less latest (end_time a)"
proof (cases acts)
  case Nil
  with assms(2) show ?thesis by simp
next
  case (Cons p ps)
  let ?first = "min_from (\<lambda>act. start (snd act)) p ps"
  let ?last = "max_from (\<lambda>act. end_time (snd act)) p ps"
  from assms(1) Cons have e: "earliest = (start (snd ?first))\<lparr>minute := 0, second := 0\<rparr>"
    and l: "latest = end_time (snd ?last)"
    by (auto simp: hour_range_def Let_def time_plus_timedelta_def split: if_splits)
  from min_from_lower [of "\<lambda>act. start (snd act)" p ps] assms(2) Cons
  have "\<not> time_less (start a) (start (snd ?first))" by auto
  then have "hour (start (snd ?first)) \<le> hour (start a)" by (rule hour_mono)
  moreover from max_from_upper [of "\<lambda>act. end_time (snd act)" p ps] assms(2) Cons
  have "\<not> time_less (end_time (snd ?last)) (end_time a)" by auto
  ultimately show ?thesis by (simp add: e l)
qed

lemma hour_range_whole_hours:
  assumes "minute (end_time (snd (max_from (\<lambda>act. end_time (snd act)) p ps))) = 0"
    and "second (end_time (snd (max_from (\<lambda>act. end_time (snd act)) p ps))) = 0"
  shows "hour_range (p # ps) =
     Inr ((start (snd (min_from (\<lambda>act. start (snd act)) p ps)))\<lparr>minute := 0, second := 0\<rparr>,
          end_time (snd (max_from (\<lambda>act. end_time (snd act)) p ps)))"
  using assms by (simp add: hour_range_def Let_def)

lemma hour_range_round_up_raises:
  assumes "0 < minute (end_time (snd (max_from (\<lambda>act. end_time (snd act)) p ps)))
         \<or> 0 < second (end_time (snd (max_from (\<lambda>act. end_time (snd act)) p ps)))"
  shows "hour_range (p # ps) = Inl TypeError"
  using assms by (auto simp: hour_range_def Let_def time_plus_timedelta_def)

lemma add_hours_same_day:
  assumes "ordinal date \<le> MAXORDINAL" and "h + k < 24"
  shows "add_hours (at_hour date h) k =
           Inr (date\<lparr>tod := (tod date)\<lparr>hour := h + k, minute := 0, second := 0\<rparr>\<rparr>)"
  using assms by (simp add: add_hours_def at_hour_def Let_def)

lemma week_columns: "length day_name - 2 = 5"
  by (simp add: day_name_def)

lemma table_rows_hours:
  assumes "ordinal date \<le> MAXORDINAL" and "\<forall>k \<in> set ks. hour earliest + k < 24"
  shows "table_rows date earliest rendered ks =
     Inr (map (\<lambda>k. let dt = (tod date)\<lparr>hour := hour earliest + k, minute := 0, second := 0\<rparr>
                    in strftime_HM dt # map (\<lambda>d. join [CHR 0x0A] (rendered (d, dt))) [0 ..< 5])
            ks)"
  using assms(2)
proof (induction ks)
  case Nil
  then show ?case by simp
next
  case (Cons k ks)
  then have k: "hour earliest + k < 24" and ks: "\<forall>k \<in> set ks. hour earliest + k < 24" by simp_all
  show ?case
    using Cons.IH [OF ks] add_hours_same_day [OF assms(1) k]
    by (simp add: Let_def week_columns del: upt_Suc)
qed

lemma table_rows_ascending:
  assumes "ordinal date \<le> MAXORDINAL" and "hour latest \<le> 24"
  shows "table_rows date earliest rendered [0 ..< hour latest - hour earliest] =
     Inr (map (\<lambda>h. let dt = (tod date)\<lparr>hour := h, minute := 0, second := 0\<rparr>
                    in strftime_HM dt # map (\<lambda>d. join [CHR 0x0A] (rendered (d, dt))) [0 ..< 5])
            [hour earliest ..< hour latest])"
proof -
  have b: "\<forall>k \<in> set [0 ..< hour latest - hour earliest]. hour earliest + k < 24"
    using assms(2) by auto
  have "[hour earliest ..< hour latest] =
          map (\<lambda>k. hour earliest + k) [0 ..< hour latest - hour earliest]"
  proof (cases "hour earliest \<le> hour latest")
    case True
    have "map (\<lambda>k. k + hour earliest) [0 ..< hour latest - hour earliest] =
            [hour earliest ..< hour latest - hour earliest + hour earliest]"
      by (rule map_add_upt)
    with True show ?thesis by (simp add: add.commute)
  next
    case False
    then show ?thesis by simp
  qed
  then show ?thesis
    unfolding table_rows_hours [OF assms(1) b] by (simp add: comp_def Let_def del: upt_Suc)
qed

lemma render_hours_total:
  assumes "ordinal date \<le> MAXORDINAL" and "\<forall>k \<in> set ks. hour (start a) + k < 24"
  shows "\<exists>r. render_hours date c a ks rendered = Inr r"
  using assms(2)
proof (induction ks arbitrary: rendered)
  case Nil
  then show ?case by simp
next
  case (Cons k ks)
  then have k: "hour (start a) + k < 24" and ks: "\<forall>k \<in> set ks. hour (start a) + k < 24"
    by simp_all
  show ?case
    using Cons.IH [OF ks] add_hours_same_day [OF assms(1) k]
    by (simp add: Let_def)
qed

lemma render_activities_total:
  assumes "ordinal date \<le> MAXORDINAL" and "\<forall>(c, a) \<in> set acts. hour (end_time a) \<le> 24"
  shows "\<exists>r. render_activities date acts rendered = Inr r"
  using assms(2)
proof (induction acts arbitrary: rendered)
  case Nil
  then show ?case by simp
next
  case (Cons p acts)
  obtain c a where p: "p = (c, a)" by (cases p)
  from Cons.prems p have a: "hour (end_time a) \<le> 24"
    and rest: "\<forall>(c, a) \<in> set acts. hour (end_time a) \<le> 24" by simp_all
  from a have "\<forall>k \<in> set [0 ..< hour (end_time a) - hour (start a)]. hour (start a) + k < 24"
    by auto
  from render_hours_total [OF assms(1) this]
  obtain r where "render_hours date c a [0 ..< hour (end_time a) - hour (start a)] rendered = Inr r"
    by blast
  then show ?case using Cons.IH [OF rest, of r] by (simp add: p)
qed

lemma week_grid_whole_hours:
  assumes "ordinal date \<le> MAXORDINAL"
    and "week_activities ext date courses sel = Inr (p # ps)"
    and "\<forall>(c, a) \<in> set (p # ps). valid_time (end_time a)"
    and "latest = end_time (snd (max_from (\<lambda>act. end_time (snd act)) p ps))"
    and "earliest = start (snd (min_from (\<lambda>act. start (snd act)) p ps))"
    and "minute latest = 0" and "second latest = 0"
  shows "\<exists>rendered. render_activities date (p # ps) (\<lambda>k. []) = Inr rendered
     \<and> print_week_timetable ext config_dict date courses sel =
         Inr [Table 0 0
               (([[]] @ take 5 day_name)
                # map (\<lambda>h. let dt = (tod date)\<lparr>hour := h, minute := 0, second := 0\<rparr>
                             in strftime_HM dt
                                # map (\<lambda>d. join [CHR 0x0A] (rendered (d, dt))) [0 ..< 5])
                    [hour earliest ..< hour latest])]"
proof -
  from assms(3) have "\<forall>(c, a) \<in> set (p # ps). hour (end_time a) \<le> 24"
    by (auto simp: valid_time_def)
  from render_activities_total [OF assms(1) this]
  obtain rendered where r: "render_activities date (p # ps) (\<lambda>k. []) = Inr rendered" by blast
  have "max_from (\<lambda>act. end_time (snd act)) p ps \<in> set (p # ps)" by (rule max_from_mem)
  with assms(3,4) have "valid_time latest" by (auto simp: case_prod_unfold)
  then have l24: "hour latest \<le> 24" by (simp add: valid_time_def)
  have hr: "hour_range (p # ps) = Inr (earliest\<lparr>minute := 0, second := 0\<rparr>, latest)"
    using hour_range_whole_hours [of p ps] assms(4-7) by simp
  have rows: "table_rows date (earliest\<lparr>minute := 0, second := 0\<rparr>) rendered
                [0 ..< hour latest - hour earliest] =
     Inr (map (\<lambda>h. let dt = (tod date)\<lparr>hour := h, minute := 0, second := 0\<rparr>
                    in strftime_HM dt # map (\<lambda>d. join [CHR 0x0A] (rendered (d, dt))) [0 ..< 5])
            [hour earliest ..< hour latest])"
    using table_rows_ascending [OF assms(1) l24, of "earliest\<lparr>minute := 0, second := 0\<rparr>" rendered]
    by simp
  have "print_week_timetable ext config_dict date courses sel =
         Inr [Table 0 0
               (([[]] @ take 5 day_name)
                # map (\<lambda>h. let dt = (tod date)\<lparr>hour := h, minute := 0, second := 0\<rparr>
                             in strftime_HM dt
                                # map (\<lambda>d. join [CHR 0x0A] (rendered (d, dt))) [0 ..< 5])
                    [hour earliest ..< hour latest])]"
    unfolding print_week_timetable_def assms(2)
    using hr r rows by (simp add: Let_def del: render_activities.simps upt_Suc)
  with r show ?thesis by blast
qed

lemma monday_valid: "valid_datetime monday"
  by (simp add: valid_datetime_def valid_time_def MAXORDINAL_def monday_def)

lemma example_week:
  "week_activities example_ext monday [cs105, cs106] () = Inr [(cs105, seminar), (cs106, workshop)]"
  unfolding week_activities_valid [OF monday_valid]
  by (simp add: ex_defs weekday_def upt_rec)

lemma example_range:
  "hour_range [(cs105, seminar), (cs106, workshop)] = Inr (hm 9 0, hm 14 0)"
  by (simp add: hour_range_def Let_def ex_defs time_less_def time_tuple_def)

lemma example_cells:
  "render_activities monday [(cs105, seminar), (cs106, workshop)] (\<lambda>k. []) =
     Inr ((\<lambda>k. [])
          ((0, \<lparr>hour = 9, minute = 0, second = 0, microsecond = 0\<rparr>) := [''CS105 Seminar''],
           (0, \<lparr>hour = 13, minute = 0, second = 0, microsecond = 0\<rparr>) := [''CS106 Workshop'']))"
  by (simp add: Let_def ex_defs add_hours_def at_hour_def MAXORDINAL_def upt_rec)


lemma example_rows:
  "table_rows monday (hm 9 0)
     ((\<lambda>k. [])
          ((0, \<lparr>hour = 9, minute = 0, second = 0, microsecond = 0\<rparr>) := [''CS105 Seminar''],
           (0, \<lparr>hour = 13, minute = 0, second = 0, microsecond = 0\<rparr>) := [''CS106 Workshop'']))
     [0 ..< 5] =
   Inr [[''09:00'', ''CS105 Seminar'', [], [], [], []],
        [''10:00'', [], [], [], [], []],
        [''11:00'', [], [], [], [], []],
        [''12:00'', [], [], [], [], []],
        [''13:00'', ''CS106 Workshop'', [], [], [], []]]"
  by (simp add: Let_def ex_defs add_hours_def at_hour_def MAXORDINAL_def upt_rec day_name_def
      strftime_HM_def pad2_def dec.simps digit_def)

lemma week_grid_example:
  "print_week_timetable example_ext () monday [cs105, cs106] () =
     Inr [Table 0 0
       [[[], ''Monday'', ''Tuesday'', ''Wednesday'', ''Thursday'', ''Friday''],
        [''09:00'', ''CS105 Seminar'', [], [], [], []],
        [''10:00'', [], [], [], [], []],
        [''11:00'', [], [], [], [], []],
        [''12:00'', [], [], [], [], []],
        [''13:00'', ''CS106 Workshop'', [], [], [], []]]]"
proof -
  have h: "hour (hm 14 0) - hour (hm 9 0) = 5" by (simp add: hm_def)
  show ?thesis
    unfolding print_week_timetable_def example_week
    by (simp add: example_range example_cells h example_rows
          del: render_activities.simps table_rows.simps upt_Suc)
       (simp add: day_name_def)
qed

text \<open>
  C8. An activity whose end hour equals its start hour (09:00 to 09:50, say) is appended
  to no cell of the week grid: the loop over the activities gives the same cells with it
  as without it, and alone it leaves the cells as they were. Its times still count for
  the displayed hours: whenever the bounds are computed from a list that holds it, the
  earliest hour is at most its start hour and the latest time is no earlier than its end.
\<close>

theorem same_hour_activity_in_no_cell:
  assumes "hour (end_time a) = hour (start a)"
  shows "render_activities date (pre @ (c, a) # post) rendered =
           render_activities date (pre @ post) rendered
         \<and> render_activities date [(c, a)] rendered = Inr rendered
         \<and> (\<forall>earliest latest. hour_range (pre @ (c, a) # post) = Inr (earliest, latest) \<longrightarrow>
               hour earliest \<le> hour (start a) \<and> \<not> time_less latest (end_time a))"
proof -
  from assms have le: "hour (end_time a) \<le> hour (start a)" by simp
  have "(c, a) \<in> set (pre @ (c, a) # post)" by simp
  then have "\<forall>earliest latest. hour_range (pre @ (c, a) # post) = Inr (earliest, latest) \<longrightarrow>
               hour earliest \<le> hour (start a) \<and> \<not> time_less latest (end_time a)"
    using hour_range_bounds by blast
  moreover have "render_activities date [(c, a)] rendered = Inr rendered"
    using le by simp
  ultimately show ?thesis using render_activities_skip [OF le] by blast
qed

text \<open>
  The quiz from 09:00 to 09:50 beside the lab from 14:00 to 16:00: the cells are those of
  the lab alone, and the displayed hours start at 09:00 with the quiz, at 14:00 without.
\<close>

theorem same_hour_activity_in_no_cell_witness:
  "render_activities monday [(cs104, quiz), (cs102, lab)] (\<lambda>k. []) =
     render_activities monday [(cs102, lab)] (\<lambda>k. [])
   \<and> hour_range [(cs104, quiz), (cs102, lab)] = Inr (hm 9 0, hm 16 0)
   \<and> hour_range [(cs102, lab)] = Inr (hm 14 0, hm 16 0)"
proof -
  have q: "hour (end_time quiz) = hour (start quiz)" by (simp add: quiz_def hm_def)
  from same_hour_activity_in_no_cell [OF q, of monday "[]" cs104 "[(cs102, lab)]" "\<lambda>k. []"]
  have "render_activities monday [(cs104, quiz), (cs102, lab)] (\<lambda>k. []) =
     render_activities monday [(cs102, lab)] (\<lambda>k. [])"
    by simp
  moreover have "hour_range [(cs104, quiz), (cs102, lab)] = Inr (hm 9 0, hm 16 0)"
    by (simp add: hour_range_def Let_def ex_defs time_less_def time_tuple_def)
  moreover have "hour_range [(cs102, lab)] = Inr (hm 14 0, hm 16 0)"
    by (simp add: hour_range_def Let_def ex_defs time_less_def time_tuple_def)
  ultimately show ?thesis by blast
qed

text \<open>
  C1, at an input where the code departs from it. The claim has the latest bound rounded
  up to the next whole hour when the latest end has a minute or second: for a week whose
  only activity is the seminar on Monday from 09:00 to 10:30 that is 11:00, with the rows
  09:00 and 10:00. Line 177 adds a \<^verbatim>\<open>timedelta\<close> to a \<^verbatim>\<open>datetime.time\<close> there, which
  raises \<^verbatim>\<open>TypeError\<close>: the week view prints its header and ends with the exception, and
  no grid is drawn. (For a latest end on the whole hour the rows are those of the claim:
  \<open>week_grid_whole_hours\<close>, \<open>week_grid_example\<close>.)
\<close>

theorem week_grid_round_up_raises:
  "week_activities example_ext monday [cs105] () = Inr [(cs105, seminar)]
   \<and> end_time seminar = \<lparr>hour = 10, minute = 30, second = 0, microsecond = 0\<rparr>
   \<and> print_week_timetable example_ext () monday [cs105] () = Inl TypeError
   \<and> show_week example_ext monday () [cs105] () (no_args\<lparr>cmd_week := True\<rparr>) =
       ([Print ''Showing timetable for week 00 of 2018''], Some TypeError)"
proof -
  have v: "valid_datetime monday"
    by (simp add: valid_datetime_def valid_time_def MAXORDINAL_def monday_def)
  have w: "week_activities example_ext monday [cs105] () = Inr [(cs105, seminar)]"
    unfolding week_activities_valid [OF v]
    by (simp add: ex_defs weekday_def upt_rec)
  have h: "hour_range [(cs105, seminar)] = Inl TypeError"
    by (rule hour_range_round_up_raises) (simp add: ex_defs)
  have p: "print_week_timetable example_ext () monday [cs105] () = Inl TypeError"
    by (simp add: print_week_timetable_def w h)
  have s: "show_week example_ext monday () [cs105] () (no_args\<lparr>cmd_week := True\<rparr>) =
       ([Print ''Showing timetable for week 00 of 2018''], Some TypeError)"
    by (simp add: show_week_def on_or_now_def no_args_def p output_then_def) (simp add: example_ext_def)
  from w p s show ?thesis by (simp add: seminar_def hm_def)
qed

end
